theory Spec2Isabelle
  imports Complex_Main "HOL-Library.Sublist"
begin

section \<open>Python strings\<close>

text \<open>
  A Python \<open>str\<close> is modelled as a \<open>string\<close>: the list of the bytes of its UTF-8
  encoding. White space and the length of a string are those of Python's characters,
  read off the encoding. \<open>str.lower\<close> and \<open>str.upper\<close> change the ASCII letters
  only; the code compares their results with ASCII constants.
\<close>

definition lower_char :: "char \<Rightarrow> char" where
  "lower_char c =
     (case map_of (zip ''ABCDEFGHIJKLMNOPQRSTUVWXYZ'' ''abcdefghijklmnopqrstuvwxyz'') c of
        Some d \<Rightarrow> d
      | None \<Rightarrow> c)"

definition upper_char :: "char \<Rightarrow> char" where
  "upper_char c =
     (case map_of (zip ''abcdefghijklmnopqrstuvwxyz'' ''ABCDEFGHIJKLMNOPQRSTUVWXYZ'') c of
        Some d \<Rightarrow> d
      | None \<Rightarrow> c)"

definition lower :: "string \<Rightarrow> string" where
  "lower s = map lower_char s"

definition upper :: "string \<Rightarrow> string" where
  "upper s = map upper_char s"

text \<open>
  The characters that \<open>str.strip\<close> removes, each as the bytes of its encoding: the
  ASCII ones (9-13, 28-32) and U+0085, U+00A0, U+1680, U+2000-U+200A, U+2028, U+2029,
  U+202F, U+205F and U+3000.
\<close>

definition whitespace :: "string list" where
  "whitespace =
     [[CHR 0x09], [CHR 0x0A], [CHR 0x0B], [CHR 0x0C], [CHR 0x0D],
      [CHR 0x1C], [CHR 0x1D], [CHR 0x1E], [CHR 0x1F], [CHR 0x20],
      [CHR 0xC2, CHR 0x85], [CHR 0xC2, CHR 0xA0],
      [CHR 0xE1, CHR 0x9A, CHR 0x80],
      [CHR 0xE2, CHR 0x80, CHR 0x80], [CHR 0xE2, CHR 0x80, CHR 0x81],
      [CHR 0xE2, CHR 0x80, CHR 0x82], [CHR 0xE2, CHR 0x80, CHR 0x83],
      [CHR 0xE2, CHR 0x80, CHR 0x84], [CHR 0xE2, CHR 0x80, CHR 0x85],
      [CHR 0xE2, CHR 0x80, CHR 0x86], [CHR 0xE2, CHR 0x80, CHR 0x87],
      [CHR 0xE2, CHR 0x80, CHR 0x88], [CHR 0xE2, CHR 0x80, CHR 0x89],
      [CHR 0xE2, CHR 0x80, CHR 0x8A],
      [CHR 0xE2, CHR 0x80, CHR 0xA8], [CHR 0xE2, CHR 0x80, CHR 0xA9],
      [CHR 0xE2, CHR 0x80, CHR 0xAF],
      [CHR 0xE2, CHR 0x81, CHR 0x9F],
      [CHR 0xE3, CHR 0x80, CHR 0x80]]"

text \<open>
  Removing the leading characters of a set, given by their encodings. No encoding of
  a character is the beginning or the end of the encoding of another, so matching
  bytes at either end of a well-formed string matches characters.
\<close>

function strip_leading :: "string list \<Rightarrow> string \<Rightarrow> string" where
  "strip_leading ws s =
     (case find (\<lambda>w. w \<noteq> [] \<and> prefix w s) ws of
        None \<Rightarrow> s
      | Some w \<Rightarrow> strip_leading ws (drop (length w) s))"
  by pat_completeness auto
termination
proof (relation "measure (\<lambda>(ws, s). length s)")
  show "wf (measure (\<lambda>(ws, s). length s))" by simp
next
  fix ws :: "string list" and s w :: string
  assume "find (\<lambda>w. w \<noteq> [] \<and> prefix w s) ws = Some w"
  then have "w \<noteq> []" and "prefix w s"
    by (auto simp: find_Some_iff)
  then obtain r where "s = w @ r" by (auto simp: prefix_def)
  with \<open>w \<noteq> []\<close> show "((ws, drop (length w) s), (ws, s)) \<in> measure (\<lambda>(ws, s). length s)"
    by simp
qed

declare strip_leading.simps [simp del]

text \<open>\<open>s.strip()\<close>\<close>

definition strip :: "string \<Rightarrow> string" where
  "strip s = rev (strip_leading (map rev whitespace) (rev (strip_leading whitespace s)))"

text \<open>
  \<open>len(s)\<close>: the number of characters, that is of the bytes that are not
  continuation bytes (\<open>10xxxxxx\<close>).
\<close>

definition py_len :: "string \<Rightarrow> nat" where
  "py_len s = length (filter (\<lambda>c. \<not> (digit7 c \<and> \<not> digit6 c)) s)"

definition startswith :: "string \<Rightarrow> string \<Rightarrow> bool" where
  "startswith s p = prefix p s"

definition endswith :: "string \<Rightarrow> string \<Rightarrow> bool" where
  "endswith s p = suffix p s"

text \<open>\<open>sep.join(xs)\<close>\<close>

fun join :: "string \<Rightarrow> string list \<Rightarrow> string" where
  "join sep [] = []"
| "join sep [x] = x"
| "join sep (x # y # ys) = x @ sep @ join sep (y # ys)"

text \<open>\<open>needle in haystack\<close> on strings.\<close>

definition contains :: "string \<Rightarrow> string \<Rightarrow> bool" where
  "contains haystack needle = sublist needle haystack"

section \<open>Errors\<close>

text \<open>
  The exceptions the modelled code raises, with their messages. \<open>str(exc)\<close> is the
  message.
\<close>

datatype py_error = ValueError string | RuntimeError string

fun str_of_error :: "py_error \<Rightarrow> string" where
  "str_of_error (ValueError msg) = msg"
| "str_of_error (RuntimeError msg) = msg"

section \<open>prompt\_strategies.py\<close>

text \<open>
  Every prompt function starts with
  \<^verbatim>\<open>prior_list = "\n".join(f"- {q}" for q in (previous_questions or [])) or "None"\<close>.
\<close>

definition prior_list_of :: "string list option \<Rightarrow> string" where
  "prior_list_of previous_questions =
     (let joined = join ''\<newline>''
            (map (\<lambda>q. ''- '' @ q) (case previous_questions of None \<Rightarrow> [] | Some qs \<Rightarrow> qs))
      in if joined = [] then ''None'' else joined)"

text \<open>
  The six templates. \<open>{company or 'a company'}\<close> is the company unless it is empty.
\<close>

definition zero_shot_prompt ::
  "string \<Rightarrow> string \<Rightarrow> string \<Rightarrow> string \<Rightarrow> string list option \<Rightarrow> string" where
  "zero_shot_prompt role company round_type difficulty previous_questions =
     (let prior_list = prior_list_of previous_questions
      in ''Generate a single interview question for the following position:\<newline>\<newline>'' @
         ''Role: '' @ role @ ''\<newline>'' @
         ''Company: '' @ (if company = [] then ''a company'' else company) @ ''\<newline>'' @
         ''Interview Round: '' @ round_type @ ''\<newline>'' @
         ''Difficulty Level: '' @ difficulty @ ''\<newline>\<newline>'' @
         ''Previously asked questions (avoid repetition):\<newline>'' @
         prior_list @ ''\<newline>\<newline>'' @
         ''Generate exactly ONE challenging and relevant interview question.\<newline>\<newline>'' @
         ''Question:'')"

definition few_shot_prompt ::
  "string \<Rightarrow> string \<Rightarrow> string \<Rightarrow> string \<Rightarrow> string list option \<Rightarrow> string" where
  "few_shot_prompt role company round_type difficulty previous_questions =
     (let prior_list = prior_list_of previous_questions;
          examples =
            (if lower round_type = ''coding'' then
               ''\<newline>'' @
               ''Example 1:\<newline>'' @
               ''Role: Software Engineer\<newline>'' @
               ''Question: '' @ [CHR 0x22] @
               ''Implement a function to find the longest palindromic substring in a given string. What's the time complexity of your solution?'' @
               [CHR 0x22] @ ''\<newline>\<newline>'' @
               ''Example 2:\<newline>'' @
               ''Role: Backend Developer\<newline>'' @
               ''Question: '' @ [CHR 0x22] @
               ''Design a rate limiter for an API that handles 10,000 requests per second. Explain your approach and trade-offs.'' @
               [CHR 0x22] @ ''\<newline>\<newline>'' @
               ''Example 3:\<newline>'' @
               ''Role: Full Stack Developer\<newline>'' @
               ''Question: '' @ [CHR 0x22] @
               ''How would you optimize a slow database query that joins three tables with millions of rows each?'' @
               [CHR 0x22] @ ''\<newline>''
             else if lower round_type = ''behavioral'' then
               ''\<newline>'' @
               ''Example 1:\<newline>'' @
               ''Role: Product Manager\<newline>'' @
               ''Question: '' @ [CHR 0x22] @
               ''Tell me about a time when you had to make a difficult decision with incomplete information. How did you approach it?'' @
               [CHR 0x22] @ ''\<newline>\<newline>'' @
               ''Example 2:\<newline>'' @
               ''Role: Team Lead\<newline>'' @
               ''Question: '' @ [CHR 0x22] @
               ''Describe a situation where you had to give constructive feedback to a team member who wasn't meeting expectations.'' @
               [CHR 0x22] @ ''\<newline>\<newline>'' @
               ''Example 3:\<newline>'' @
               ''Role: Software Engineer\<newline>'' @
               ''Question: '' @ [CHR 0x22] @
               ''Can you share an example of when you disagreed with your manager's technical decision? How did you handle it?'' @
               [CHR 0x22] @ ''\<newline>''
             else
               ''\<newline>'' @
               ''Example 1:\<newline>'' @
               ''Role: Data Scientist\<newline>'' @
               ''Question: '' @ [CHR 0x22] @
               ''Explain the bias-variance tradeoff and how it impacts model selection in machine learning.'' @
               [CHR 0x22] @ ''\<newline>\<newline>'' @
               ''Example 2:\<newline>'' @
               ''Role: DevOps Engineer\<newline>'' @
               ''Question: '' @ [CHR 0x22] @
               ''How would you design a CI/CD pipeline for a microservices architecture with 20+ services?'' @
               [CHR 0x22] @ ''\<newline>\<newline>'' @
               ''Example 3:\<newline>'' @
               ''Role: Security Engineer\<newline>'' @
               ''Question: '' @ [CHR 0x22] @
               ''What are the key differences between symmetric and asymmetric encryption, and when would you use each?'' @
               [CHR 0x22] @ ''\<newline>'')
      in ''Here are examples of high-quality interview questions:\<newline>'' @
         examples @ ''\<newline>\<newline>'' @
         ''Now generate a similar question for:\<newline>'' @
         ''Role: '' @ role @ ''\<newline>'' @
         ''Company: '' @ (if company = [] then ''a company'' else company) @ ''\<newline>'' @
         ''Interview Round: '' @ round_type @ ''\<newline>'' @
         ''Difficulty Level: '' @ difficulty @ ''\<newline>\<newline>'' @
         ''Previously asked questions (avoid these):\<newline>'' @
         prior_list @ ''\<newline>\<newline>'' @
         ''Generate exactly ONE interview question following the style and quality of the examples above.\<newline>\<newline>'' @
         ''Question:'')"

definition chain_of_thought_prompt ::
  "string \<Rightarrow> string \<Rightarrow> string \<Rightarrow> string \<Rightarrow> string list option \<Rightarrow> string" where
  "chain_of_thought_prompt role company round_type difficulty previous_questions =
     (let prior_list = prior_list_of previous_questions
      in ''You need to generate an interview question. Let's think through this step by step:\<newline>\<newline>'' @
         ''Step 1: Analyze the role and requirements\<newline>'' @
         ''- Role: '' @ role @ ''\<newline>'' @
         ''- Company: '' @ (if company = [] then ''a company'' else company) @
         ''\<newline>'' @
         ''- Interview Round: '' @ round_type @ ''\<newline>'' @
         ''- Difficulty Level: '' @ difficulty @ ''\<newline>\<newline>'' @
         ''Step 2: Consider what skills are most important for this role\<newline>'' @
         ''Think about: What are the key competencies needed for a '' @ role @
         ''?\<newline>\<newline>'' @
         ''Step 3: Determine the appropriate question type\<newline>'' @
         ''For '' @ round_type @ '' round at '' @ difficulty @
         '' level, what type of question would best assess the candidate?\<newline>\<newline>'' @
         ''Step 4: Review previously asked questions to avoid repetition\<newline>'' @
         prior_list @ ''\<newline>\<newline>'' @
         ''Step 5: Craft a question that:\<newline>'' @
         ''- Tests relevant skills for the role\<newline>'' @
         ''- Matches the difficulty level\<newline>'' @
         ''- Is appropriate for the '' @ round_type @ '' round\<newline>'' @
         ''- Doesn't repeat previous questions\<newline>'' @
         ''- Encourages detailed, thoughtful responses\<newline>\<newline>'' @
         ''Now, based on this reasoning, generate exactly ONE interview question:\<newline>\<newline>'' @
         ''Question:'')"

definition role_based_prompt ::
  "string \<Rightarrow> string \<Rightarrow> string \<Rightarrow> string \<Rightarrow> string list option \<Rightarrow> string" where
  "role_based_prompt role company round_type difficulty previous_questions =
     (let prior_list = prior_list_of previous_questions
      in ''You are a senior technical recruiter with 15+ years of experience at top tech companies like Google, Meta, and Amazon. You've conducted over 5,000 interviews and have deep expertise in assessing candidates for technical roles.\<newline>\<newline>'' @
         ''Your task is to create an interview question that will effectively evaluate a candidate applying for:\<newline>\<newline>'' @
         ''Position: '' @ role @ ''\<newline>'' @
         ''Company: '' @ (if company = [] then ''a company'' else company) @ ''\<newline>'' @
         ''Interview Stage: '' @ round_type @ ''\<newline>'' @
         ''Candidate Level: '' @ difficulty @ ''\<newline>\<newline>'' @
         ''As an expert interviewer, you know that great questions should:\<newline>'' @
         ''- Reveal the candidate's depth of knowledge\<newline>'' @
         ''- Allow for follow-up discussions\<newline>'' @
         ''- Differentiate between good and exceptional candidates\<newline>'' @
         ''- Be fair and unbiased\<newline>'' @
         ''- Relate to real-world scenarios\<newline>\<newline>'' @
         ''Questions already asked in this interview (avoid similar topics):\<newline>'' @
         prior_list @ ''\<newline>\<newline>'' @
         ''Drawing on your extensive experience, craft exactly ONE interview question that will help identify the best candidate for this role.\<newline>\<newline>'' @
         ''Question:'')"

definition structured_output_prompt ::
  "string \<Rightarrow> string \<Rightarrow> string \<Rightarrow> string \<Rightarrow> string list option \<Rightarrow> string" where
  "structured_output_prompt role company round_type difficulty previous_questions =
     (let prior_list = prior_list_of previous_questions
      in ''Generate an interview question with the following specifications:\<newline>\<newline>'' @
         ''TARGET ROLE: '' @ role @ ''\<newline>'' @
         ''COMPANY: '' @ (if company = [] then ''a company'' else company) @ ''\<newline>'' @
         ''INTERVIEW ROUND: '' @ round_type @ ''\<newline>'' @
         ''DIFFICULTY: '' @ difficulty @ ''\<newline>\<newline>'' @
         ''REQUIREMENTS:\<newline>'' @
         ''1. The question must be relevant to the '' @ role @ '' position\<newline>'' @
         ''2. It should match the '' @ difficulty @ '' difficulty level\<newline>'' @
         ''3. It must be appropriate for the '' @ round_type @
         '' interview round\<newline>'' @
         ''4. It should encourage detailed responses (not yes/no questions)\<newline>'' @
         ''5. It must be different from these previously asked questions:\<newline>'' @
         prior_list @ ''\<newline>\<newline>'' @
         ''QUALITY CRITERIA:\<newline>'' @
         ''- Clarity: The question should be unambiguous\<newline>'' @
         ''- Relevance: Directly related to job responsibilities\<newline>'' @
         ''- Depth: Should assess understanding, not just memorization\<newline>'' @
         ''- Practicality: Related to real-world scenarios when possible\<newline>\<newline>'' @
         ''OUTPUT FORMAT:\<newline>'' @
         ''Provide only the interview question, nothing else. The question should be:\<newline>'' @
         ''- One clear, focused question (may include follow-up parts)\<newline>'' @
         ''- Properly punctuated\<newline>'' @
         ''- Professional in tone\<newline>\<newline>'' @
         ''Question:'')"

definition socratic_prompt ::
  "string \<Rightarrow> string \<Rightarrow> string \<Rightarrow> string \<Rightarrow> string list option \<Rightarrow> string" where
  "socratic_prompt role company round_type difficulty previous_questions =
     (let prior_list = prior_list_of previous_questions
      in ''Let's create an excellent interview question by answering these guiding questions:\<newline>\<newline>'' @
         ''Q1: What is the role we're interviewing for?\<newline>'' @
         ''A1: '' @ role @ ''\<newline>\<newline>'' @
         ''Q2: What are the core competencies required for a '' @ role @ ''?\<newline>'' @
         ''A2: [Consider technical skills, soft skills, and domain knowledge]\<newline>\<newline>'' @
         ''Q3: What interview round is this?\<newline>'' @
         ''A3: '' @ round_type @ ''\<newline>\<newline>'' @
         ''Q4: What specific skills should the '' @ round_type @
         '' round assess?\<newline>'' @
         ''A4: [Think about what this round uniquely evaluates]\<newline>\<newline>'' @
         ''Q5: What difficulty level are we targeting?\<newline>'' @
         ''A5: '' @ difficulty @ ''\<newline>\<newline>'' @
         ''Q6: How should questions differ between difficulty levels?\<newline>'' @
         ''A6: [Consider complexity, depth, and expected experience]\<newline>\<newline>'' @
         ''Q7: What questions have already been asked?\<newline>'' @
         ''A7: '' @ prior_list @ ''\<newline>\<newline>'' @
         ''Q8: What topics or skills haven't been covered yet?\<newline>'' @
         ''A8: [Identify gaps in the interview coverage]\<newline>\<newline>'' @
         ''Q9: What real-world challenges does a '' @ role @ '' at '' @
         (if company = [] then ''a company'' else company) @ '' face?\<newline>'' @
         ''A9: [Think about practical, job-relevant scenarios]\<newline>\<newline>'' @
         ''Q10: Based on all these considerations, what single question would best assess the candidate?\<newline>\<newline>'' @
         ''Generate exactly ONE interview question:\<newline>\<newline>'' @
         ''Question:'')"

type_synonym prompt_function =
  "string \<Rightarrow> string \<Rightarrow> string \<Rightarrow> string \<Rightarrow> string list option \<Rightarrow> string"

record strategy_info =
  strategy_name :: string
  strategy_description :: string
  strategy_function :: prompt_function

text \<open>
  The registry \<open>PROMPT_STRATEGIES\<close>, a dictionary in insertion order: the fields
  \<open>"name"\<close>, \<open>"description"\<close> and \<open>"function"\<close> of each entry.
\<close>

definition PROMPT_STRATEGIES :: "(string \<times> strategy_info) list" where
  "PROMPT_STRATEGIES =
     [(''zero_shot'',
       \<lparr>strategy_name = ''Zero-Shot Prompting'',
        strategy_description = ''Direct instruction without examples - simple and straightforward'',
        strategy_function = zero_shot_prompt\<rparr>),
      (''few_shot'',
       \<lparr>strategy_name = ''Few-Shot Learning'',
        strategy_description = ''Provides examples to guide the model's output style and quality'',
        strategy_function = few_shot_prompt\<rparr>),
      (''chain_of_thought'',
       \<lparr>strategy_name = ''Chain-of-Thought (CoT)'',
        strategy_description = ''Encourages step-by-step reasoning for more thoughtful questions'',
        strategy_function = chain_of_thought_prompt\<rparr>),
      (''role_based'',
       \<lparr>strategy_name = ''Role-Based Prompting'',
        strategy_description = ''Assigns expert persona (senior recruiter) for specialized perspective'',
        strategy_function = role_based_prompt\<rparr>),
      (''structured_output'',
       \<lparr>strategy_name = ''Structured Output'',
        strategy_description = ''Requests specific format and quality criteria for consistency'',
        strategy_function = structured_output_prompt\<rparr>),
      (''socratic'',
       \<lparr>strategy_name = ''Socratic Method'',
        strategy_description = ''Uses guiding questions to lead the model to better outputs'',
        strategy_function = socratic_prompt\<rparr>)]"

text \<open>\<open>PROMPT_STRATEGIES.keys()\<close>\<close>

definition strategy_keys :: "string list" where
  "strategy_keys = map fst PROMPT_STRATEGIES"

definition unknown_strategy_message :: "string \<Rightarrow> string" where
  "unknown_strategy_message strategy =
     ''Unknown strategy '' @ [CHR 0x27] @ strategy @ [CHR 0x27] @ ''. '' @
     ''Available strategies: '' @ join '', '' strategy_keys"

definition get_prompt_by_strategy ::
  "string \<Rightarrow> string \<Rightarrow> string \<Rightarrow> string \<Rightarrow> string \<Rightarrow> string list option
     \<Rightarrow> py_error + string" where
  "get_prompt_by_strategy strategy role company round_type difficulty previous_questions =
     (case map_of PROMPT_STRATEGIES strategy of
        None \<Rightarrow> Inl (ValueError (unknown_strategy_message strategy))
      | Some info \<Rightarrow>
          (let prompt_function = strategy_function info
           in Inr (prompt_function role company round_type difficulty previous_questions)))"

section \<open>llm\_utils.py\<close>

subsection \<open>The response of the remote model\<close>

text \<open>
  What the code reads of a response object. \<open>response.text\<close> either raises
  \<open>ValueError\<close> (no valid part) or yields a value, \<open>None\<close> when the attribute is
  missing. A candidate has the texts of the parts of its \<open>content\<close> (\<open>None\<close> when
  the attribute is missing or falsy), \<open>str(finish_reason)\<close> (empty when the finish
  reason is missing or falsy) and its safety ratings.
\<close>

datatype text_accessor = TextRaises | TextValue "string option"

record safety_rating =
  rating_blocked :: bool
  rating_category :: string

record candidate =
  candidate_content :: "string list option"
  candidate_finish_reason :: string
  candidate_safety_ratings :: "safety_rating list"

record response =
  response_text :: text_accessor
  response_candidates :: "candidate list"

text \<open>
  \<open>_extract_text_from_candidate\<close> (lines 39-42). The body ends after the early
  return: with a truthy content the function falls off its end and returns Python's
  \<open>None\<close>, here \<open>None\<close>; \<open>Some t\<close> is a returned string.
\<close>

definition extract_text_from_candidate :: "candidate \<Rightarrow> string option" where
  "extract_text_from_candidate c =
     (case candidate_content c of
        None \<Rightarrow> Some ''''
      | Some content \<Rightarrow> None)"

text \<open>The loop of lines 59-63: the first truthy candidate text, or the empty string.\<close>

fun scan_candidates :: "candidate list \<Rightarrow> string" where
  "scan_candidates [] = ''''"
| "scan_candidates (c # cs) =
     (case extract_text_from_candidate c of
        None \<Rightarrow> scan_candidates cs
      | Some candidate_text \<Rightarrow>
          if candidate_text \<noteq> [] then candidate_text else scan_candidates cs)"

text \<open>
  \<open>_extract_text_from_response\<close> (lines 45-63); the argument is \<open>None\<close> for a
  falsy response.
\<close>

definition extract_text_from_response :: "response option \<Rightarrow> string" where
  "extract_text_from_response r =
     (case r of
        None \<Rightarrow> ''''
      | Some resp \<Rightarrow>
          (let quick =
             (case response_text resp of
                TextRaises \<Rightarrow> None
              | TextValue None \<Rightarrow> None
              | TextValue (Some quick_text) \<Rightarrow>
                  if quick_text \<noteq> [] then
                    (let text_value = strip quick_text
                     in if text_value \<noteq> [] then Some text_value else None)
                  else None)
           in case quick of
                Some text_value \<Rightarrow> text_value
              | None \<Rightarrow> scan_candidates (response_candidates resp)))"

subsection \<open>Key validation and question generation\<close>

text \<open>
  The remote service is a parameter: \<open>count_tokens api_key\<close> and
  \<open>generate_content api_key prompt\<close> return \<open>Inl msg\<close> when the library raises an
  exception whose \<open>str\<close> is \<open>msg\<close>. The generation and safety configurations
  are handed to the library and decide no branch of these functions; they are left out,
  and so are \<open>genai.configure\<close> and the constructor of the model object, local calls
  that are taken not to raise.
\<close>

definition validate_google_api_key ::
  "(string \<Rightarrow> string + unit) \<Rightarrow> string option \<Rightarrow> py_error + unit" where
  "validate_google_api_key count_tokens api_key =
     (case api_key of
        None \<Rightarrow>
          Inl (ValueError ''GOOGLE_API_KEY missing. Provide it via .env before generating questions.'')
      | Some key \<Rightarrow>
          if key = [] \<or> strip key = [] then
            Inl (ValueError ''GOOGLE_API_KEY missing. Provide it via .env before generating questions.'')
          else
            (case count_tokens key of
               Inl exc \<Rightarrow> Inl (RuntimeError (''GOOGLE_API_KEY validation failed: '' @ exc))
             | Inr u \<Rightarrow> Inr ()))"

definition prefixes_to_remove :: "string list" where
  "prefixes_to_remove =
     [''**Question:**'',
      ''**Question**:'',
      ''Question:'',
      ''**Q:**'',
      ''Q:'',
      ''Interview Question:'',
      ''**Interview Question:**'']"

text \<open>The loop of lines 156-159: the first prefix that matches is cut, then \<open>break\<close>.\<close>

fun remove_prefix :: "string list \<Rightarrow> string \<Rightarrow> string" where
  "remove_prefix [] question = question"
| "remove_prefix (p # ps) question =
     (if startswith question p then strip (drop (length p) question)
      else remove_prefix ps question)"

text \<open>Lines 143-166: the clean-up of a non-empty extracted question.\<close>

definition clean_question :: "string \<Rightarrow> string" where
  "clean_question q =
     (let question = strip q;
          question = remove_prefix prefixes_to_remove question
      in if \<not> endswith question ''?'' then question @ ''?'' else question)"

text \<open>Lines 168-180: the finish reasons of the candidates, and their join.\<close>

definition candidate_reasons :: "candidate \<Rightarrow> string list" where
  "candidate_reasons c =
     (if candidate_finish_reason c \<noteq> [] then [candidate_finish_reason c] else []) @
     map (\<lambda>rating. ''BLOCKED: '' @ rating_category rating)
       (filter rating_blocked (candidate_safety_ratings c))"

definition finish_reasons_of :: "response \<Rightarrow> string list" where
  "finish_reasons_of resp = concat (map candidate_reasons (response_candidates resp))"

definition finish_reason_str_of :: "string list \<Rightarrow> string" where
  "finish_reason_str_of finish_reasons =
     (if finish_reasons \<noteq> [] then join '', '' finish_reasons
      else ''No finish reason provided'')"

text \<open>Lines 183-213: the error raised for a response with no text.\<close>

definition empty_response_error :: "response \<Rightarrow> py_error" where
  "empty_response_error resp =
     (let finish_reason_str = finish_reason_str_of (finish_reasons_of resp)
      in if contains (upper finish_reason_str) ''MAX_TOKENS'' \<or> contains finish_reason_str ''2'' then
           RuntimeError
             (''Response exceeded token limit. '' @
              ''Try increasing 'Max Tokens' in the LLM Generation Settings (recommended: 1024-2048).'')
         else if contains (upper finish_reason_str) ''SAFETY''
                 \<or> contains (upper finish_reason_str) ''BLOCKED'' then
           RuntimeError
             (''Content blocked by Gemini safety filters. '' @
              ''Try adjusting your safety settings to 'Block None' or 'Block Few' in the app settings.'')
         else
           RuntimeError
             (''Gemini returned an empty or invalid response. '' @
              ''Finish reasons: '' @ finish_reason_str))"

text \<open>\<open>except Exception as exc: raise RuntimeError(f"Gemini question generation failed: {exc}")\<close>\<close>

definition generation_failed :: "string \<Rightarrow> py_error" where
  "generation_failed exc = RuntimeError (''Gemini question generation failed: '' @ exc)"

definition missing_key_error :: py_error where
  "missing_key_error =
     ValueError ''GOOGLE_API_KEY missing. Please provide it via the .env file or settings.''"

text \<open>
  \<open>generate_question\<close> (lines 89-215). The result comes with the log of the remote
  calls made: the pairs of API key and prompt sent to \<open>generate_content\<close>.
\<close>

definition generate_question ::
  "(string \<Rightarrow> string \<Rightarrow> string + response) \<Rightarrow> string \<Rightarrow> string \<Rightarrow> string \<Rightarrow> string
     \<Rightarrow> string list option \<Rightarrow> string option \<Rightarrow> string
     \<Rightarrow> (py_error + string) \<times> (string \<times> string) list" where
  "generate_question generate_content role company round_type difficulty previous_questions
     api_key prompt_strategy =
     (case api_key of
        None \<Rightarrow> (Inl missing_key_error, [])
      | Some key \<Rightarrow>
          if key = [] then (Inl missing_key_error, [])
          else
            (case get_prompt_by_strategy prompt_strategy role company round_type difficulty
                    previous_questions of
               Inl exc \<Rightarrow> (Inl (generation_failed (str_of_error exc)), [])
             | Inr prompt \<Rightarrow>
                 (case generate_content key prompt of
                    Inl exc \<Rightarrow> (Inl (generation_failed exc), [(key, prompt)])
                  | Inr resp \<Rightarrow>
                      (let question = extract_text_from_response (Some resp)
                       in if question \<noteq> [] then (Inr (clean_question question), [(key, prompt)])
                          else (Inl (generation_failed (str_of_error (empty_response_error resp))),
                                [(key, prompt)])))))"

section \<open>practice\_app.py: the per-question timer\<close>


text \<open>
  \<open>int(x)\<close> on a float: truncation towards zero. Timestamps (\<open>time.time()\<close>) are
  modelled as real numbers.
\<close>

definition py_int :: "real \<Rightarrow> int" where
  "py_int x = (if 0 \<le> x then \<lfloor>x\<rfloor> else \<lceil>x\<rceil>)"

record timer_state =
  question_timers :: "int \<rightharpoonup> real"
  question_locked :: "int \<rightharpoonup> bool"

text \<open>
  Lines 292-364, the branch of a session that is not finished: the timer of the
  current question is started on first sight, the elapsed time is clamped to the
  allotted seconds, and the question is locked when nothing remains. The function
  returns the new state and \<open>remaining\<close>; \<open>now\<close> is the reading of \<open>time.time()\<close>
  (the source reads the clock twice; the model takes both readings as parameters).
\<close>

definition timer_step ::
  "real \<Rightarrow> real \<Rightarrow> int \<Rightarrow> int \<Rightarrow> timer_state \<Rightarrow> timer_state \<times> int" where
  "timer_step now1 now2 per_question current_index st =
     (let st1 = (if question_timers st current_index = None
                 then st\<lparr>question_timers := (question_timers st)(current_index \<mapsto> now1)\<rparr>
                 else st);
          question_start_time = the (question_timers st1 current_index);
          elapsed = max 0 (py_int (now2 - question_start_time));
          elapsed = min elapsed per_question;
          remaining = per_question - elapsed;
          st2 = (if remaining = 0
                 then st1\<lparr>question_locked := (question_locked st1)(current_index \<mapsto> True)\<rparr>
                 else st1)
      in (st2, remaining))"

section \<open>Safety settings: the module default and the session copies\<close>

text \<open>
  \<open>DEFAULT_SAFETY_SETTINGS\<close> is one dictionary object of the module
  \<open>llm_utils\<close>, shared by every session of the process. A dictionary is an
  association list in insertion order; objects live in a store, and a session's key
  \<open>safety_settings\<close> holds a reference into it.
\<close>

datatype HarmCategory =
  HARM_CATEGORY_HARASSMENT
| HARM_CATEGORY_HATE_SPEECH
| HARM_CATEGORY_SEXUALLY_EXPLICIT
| HARM_CATEGORY_DANGEROUS_CONTENT

datatype HarmBlockThreshold =
  BLOCK_NONE
| BLOCK_ONLY_HIGH
| BLOCK_MEDIUM_AND_ABOVE
| BLOCK_LOW_AND_ABOVE

type_synonym safety_dict = "(HarmCategory \<times> HarmBlockThreshold) list"

type_synonym ref = nat

text \<open>\<open>d[k] = v\<close> on a dictionary: in place for a key that is present, appended otherwise.\<close>

fun dict_set :: "'k \<Rightarrow> 'v \<Rightarrow> ('k \<times> 'v) list \<Rightarrow> ('k \<times> 'v) list" where
  "dict_set k v [] = [(k, v)]"
| "dict_set k v ((k', v') # kvs) =
     (if k = k' then (k, v) # kvs else (k', v') # dict_set k v kvs)"

record process =
  heap :: "ref \<rightharpoonup> safety_dict"
  next_ref :: ref
  session_safety :: "nat \<rightharpoonup> ref"

text \<open>The reference held by the module-level name, and the dictionary of lines 19-24.\<close>

definition DEFAULT_SAFETY_SETTINGS :: ref where
  "DEFAULT_SAFETY_SETTINGS = 0"

definition default_safety_literal :: safety_dict where
  "default_safety_literal =
     [(HARM_CATEGORY_HARASSMENT, BLOCK_MEDIUM_AND_ABOVE),
      (HARM_CATEGORY_HATE_SPEECH, BLOCK_MEDIUM_AND_ABOVE),
      (HARM_CATEGORY_SEXUALLY_EXPLICIT, BLOCK_MEDIUM_AND_ABOVE),
      (HARM_CATEGORY_DANGEROUS_CONTENT, BLOCK_MEDIUM_AND_ABOVE)]"

text \<open>The process after the import of \<open>llm_utils\<close>, with no session yet.\<close>

definition module_loaded :: process where
  "module_loaded =
     \<lparr>heap = [DEFAULT_SAFETY_SETTINGS \<mapsto> default_safety_literal],
      next_ref = 1,
      session_safety = Map.empty\<rparr>"

definition deref :: "process \<Rightarrow> ref \<Rightarrow> safety_dict" where
  "deref p r = (case heap p r of None \<Rightarrow> [] | Some d \<Rightarrow> d)"

text \<open>The options of the select boxes of the setup page (streamlit\_app.py, lines 266-279).\<close>

datatype threshold_option = Block_None | Block_Few | Block_Some | Block_Most

fun safety_thresholds :: "threshold_option \<Rightarrow> HarmBlockThreshold" where
  "safety_thresholds Block_None = BLOCK_NONE"
| "safety_thresholds Block_Few = BLOCK_ONLY_HIGH"
| "safety_thresholds Block_Some = BLOCK_MEDIUM_AND_ABOVE"
| "safety_thresholds Block_Most = BLOCK_LOW_AND_ABOVE"

definition safety_categories :: "(string \<times> HarmCategory) list" where
  "safety_categories =
     [(''Harassment'', HARM_CATEGORY_HARASSMENT),
      (''Hate Speech'', HARM_CATEGORY_HATE_SPEECH),
      (''Sexually Explicit'', HARM_CATEGORY_SEXUALLY_EXPLICIT),
      (''Dangerous Content'', HARM_CATEGORY_DANGEROUS_CONTENT)]"

text \<open>\<open>st.session_state.safety_settings[category] = ...\<close>: a write through the reference.\<close>

definition store_threshold :: "nat \<Rightarrow> HarmCategory \<Rightarrow> HarmBlockThreshold \<Rightarrow> process \<Rightarrow> process" where
  "store_threshold sid category threshold p =
     (case session_safety p sid of
        None \<Rightarrow> p
      | Some r \<Rightarrow> p\<lparr>heap := (heap p)(r \<mapsto> dict_set category threshold (deref p r))\<rparr>)"

text \<open>
  The setup page of session \<open>sid\<close> (streamlit\_app.py, lines 262-293): the key is
  bound to the module's dictionary itself when it is missing, then every category is
  written with the option its select box shows (\<open>selectbox category_name\<close>).
\<close>

definition setup_safety_settings :: "nat \<Rightarrow> (string \<Rightarrow> threshold_option) \<Rightarrow> process \<Rightarrow> process" where
  "setup_safety_settings sid selectbox p =
     (let p1 = (if session_safety p sid = None
                then p\<lparr>session_safety := (session_safety p)(sid \<mapsto> DEFAULT_SAFETY_SETTINGS)\<rparr>
                else p)
      in fold (\<lambda>(category_name, category) q.
                 store_threshold sid category (safety_thresholds (selectbox category_name)) q)
           safety_categories p1)"

text \<open>
  The practice page of session \<open>sid\<close> (practice\_app.py, lines 34-50): a missing key
  is bound to a fresh copy, \<open>DEFAULT_SAFETY_SETTINGS.copy()\<close>.
\<close>

definition practice_safety_settings :: "nat \<Rightarrow> process \<Rightarrow> process" where
  "practice_safety_settings sid p =
     (if session_safety p sid = None
      then p\<lparr>heap := (heap p)(next_ref p \<mapsto> deref p DEFAULT_SAFETY_SETTINGS),
             next_ref := next_ref p + 1,
             session_safety := (session_safety p)(sid \<mapsto> next_ref p)\<rparr>
      else p)"

text \<open>
  What a question generation of session \<open>sid\<close> uses (llm\_utils.py, line 113):
  \<open>safety_settings or DEFAULT_SAFETY_SETTINGS\<close>.
\<close>

definition effective_safety :: "nat \<Rightarrow> process \<Rightarrow> safety_dict" where
  "effective_safety sid p =
     (case session_safety p sid of
        None \<Rightarrow> deref p DEFAULT_SAFETY_SETTINGS
      | Some r \<Rightarrow> if deref p r \<noteq> [] then deref p r else deref p DEFAULT_SAFETY_SETTINGS)"

section \<open>The session store\<close>

text \<open>
  \<open>st.session_state\<close> is a dictionary from key names to values of any type; the
  values the modelled code stores are these.
\<close>

datatype pyval =
  PNone
| PBool bool
| PInt int
| PStr string
| PStrList "string list"
| PTimers "(int \<times> real) list"
| PLocks "(int \<times> bool) list"
| PAnswers "(int \<times> string) list"

type_synonym session_state = "string \<rightharpoonup> pyval"

text \<open>Truth value of a Python value.\<close>

fun truthy :: "pyval \<Rightarrow> bool" where
  "truthy PNone = False"
| "truthy (PBool b) = b"
| "truthy (PInt i) = (i \<noteq> 0)"
| "truthy (PStr s) = (s \<noteq> [])"
| "truthy (PStrList xs) = (xs \<noteq> [])"
| "truthy (PTimers xs) = (xs \<noteq> [])"
| "truthy (PLocks xs) = (xs \<noteq> [])"
| "truthy (PAnswers xs) = (xs \<noteq> [])"

text \<open>\<open>st.session_state.get(key, dflt)\<close>\<close>

definition state_get :: "session_state \<Rightarrow> string \<Rightarrow> pyval \<Rightarrow> pyval" where
  "state_get s key dflt = (case s key of None \<Rightarrow> dflt | Some v \<Rightarrow> v)"

text \<open>\<open>str(i)\<close> for a natural number, as the f-strings of the key names use it.\<close>

definition digit_char :: "nat \<Rightarrow> char" where
  "digit_char d = ''0123456789'' ! d"

function str_nat :: "nat \<Rightarrow> string" where
  "str_nat n = (if n < 10 then [digit_char n] else str_nat (n div 10) @ [digit_char (n mod 10)])"
  by pat_completeness auto
termination
  by (relation "measure id") auto

declare str_nat.simps [simp del]

section \<open>practice\_app.py: the finished interview\<close>

text \<open>The key an answer text area is bound to (ui\_components.py, line 44; lines 198 and 390).\<close>

definition widget_key :: "nat \<Rightarrow> string" where
  "widget_key idx = ''answer_input_'' @ str_nat idx"

text \<open>The keys removed by "Start New Interview" (lines 268-280).\<close>

definition all_keys :: "string list" where
  "all_keys =
     [''paused'',
      ''finished'',
      ''questions'',
      ''current_question_index'',
      ''question_timers'',
      ''question_locked'',
      ''audio_mode_enabled'',
      ''audio_checkbox'']
     @ map (\<lambda>i. ''answer_'' @ str_nat i) [0..<10]"

text \<open>Lines 281-282: \<open>for key in all_keys: st.session_state.pop(key, None)\<close>.\<close>

definition start_new_interview :: "session_state \<Rightarrow> session_state" where
  "start_new_interview s = fold (\<lambda>key st. st(key := None)) all_keys s"

text \<open>The items of the overall feedback (lines 229-261); the icons are the bytes of the source.\<close>

definition completed_item :: string where
  "completed_item =
     [CHR 0xE2, CHR 0x80, CHR 0x9A, CHR 0xC3, CHR 0xBA, CHR 0xC3, CHR 0x96] @
       '' You completed all the interview questions!''"

definition detail_nudge :: string where
  "detail_nudge =
     [CHR 0xEF, CHR 0xA3, CHR 0xBF, CHR 0xC3, CHR 0xBC, CHR 0xC3, CHR 0xAE, CHR 0xC3, CHR 0x9F] @
       '' Consider providing more detailed answers with specific examples.''"

definition software_engineer_tips :: "string list" where
  "software_engineer_tips =
     [[CHR 0xEF, CHR 0xA3, CHR 0xBF, CHR 0xC3, CHR 0xBC, CHR 0xC3, CHR 0xAD, CHR 0xC2, CHR 0xAA] @
       '' Great job on the technical questions!'',
      [CHR 0xEF, CHR 0xA3, CHR 0xBF, CHR 0xC3, CHR 0xBC, CHR 0xC3, CHR 0xAD, CHR 0xC2, CHR 0xB0] @
       '' Consider discussing your problem-solving process in more detail.'',
      [CHR 0xEF, CHR 0xA3, CHR 0xBF, CHR 0xC3, CHR 0xBC, CHR 0xC3, CHR 0xAC, CHR 0xC3, CHR 0xB6] @
       '' Keep practicing coding challenges to improve your speed and accuracy.'']"

definition data_scientist_tips :: "string list" where
  "data_scientist_tips =
     [[CHR 0xEF, CHR 0xA3, CHR 0xBF, CHR 0xC3, CHR 0xBC, CHR 0xC3, CHR 0xAC, CHR 0xC3, CHR 0xA4] @
       '' Good work on the data analysis questions!'',
      [CHR 0xEF, CHR 0xA3, CHR 0xBF, CHR 0xC3, CHR 0xBC, CHR 0xC3, CHR 0x9F, CHR 0xE2, CHR 0x80, CHR 0xA0] @
       '' Consider discussing more about your approach to data cleaning and feature engineering.'',
      [CHR 0xEF, CHR 0xA3, CHR 0xBF, CHR 0xC3, CHR 0xBC, CHR 0xC3, CHR 0xAC, CHR 0xC3, CHR 0xA0] @
       '' Practice explaining complex statistical concepts in simple terms.'']"

definition product_manager_tips :: "string list" where
  "product_manager_tips =
     [[CHR 0xEF, CHR 0xA3, CHR 0xBF, CHR 0xC3, CHR 0xBC, CHR 0xC3, CHR 0xA9, CHR 0xC3, CHR 0x98] @
       '' Good job on the product thinking questions!'',
      [CHR 0xEF, CHR 0xA3, CHR 0xBF, CHR 0xC3, CHR 0xBC, CHR 0xC2, CHR 0xA7, CHR 0xC3, CHR 0xB9] @
       '' Consider discussing more about stakeholder management.'',
      [CHR 0xEF, CHR 0xA3, CHR 0xBF, CHR 0xC3, CHR 0xBC, CHR 0xC3, CHR 0xAC, CHR 0xC3, CHR 0xB9] @
       '' Practice creating clear and concise product requirements.'']"

definition generic_tips :: "string list" where
  "generic_tips =
     [[CHR 0xEF, CHR 0xA3, CHR 0xBF, CHR 0xC3, CHR 0xBC, CHR 0xC3, CHR 0xB2, CHR 0xC3, CHR 0xA9] @
       '' You're doing great!'',
      [CHR 0xEF, CHR 0xA3, CHR 0xBF, CHR 0xC3, CHR 0xBC, CHR 0xC3, CHR 0xAC, CHR 0xC3, CHR 0xB6] @
       '' Keep practicing to improve your interview skills.'']"

definition role_specific :: "(string \<times> string list) list" where
  "role_specific =
     [(''software engineer'', software_engineer_tips),
      (''data scientist'', data_scientist_tips),
      (''product manager'', product_manager_tips)]"

text \<open>
  The feedback list of the finished state, from the \<open>role\<close> query parameter, the
  questions and the answer map.
\<close>

definition overall_feedback :: "string option \<Rightarrow> string list \<Rightarrow> (nat \<rightharpoonup> string) \<Rightarrow> string list" where
  "overall_feedback query_role questions answers =
     (let role = lower (case query_role of None \<Rightarrow> ''Software Engineer'' | Some r \<Rightarrow> r);
          response_lengths =
            map (\<lambda>i. py_len (case answers i of None \<Rightarrow> '''' | Some a \<Rightarrow> a)) [0..<length questions];
          avg_response_length =
            (if response_lengths \<noteq> []
             then real (sum_list response_lengths) / real (length response_lengths)
             else 0);
          feedback = [completed_item];
          feedback = (if avg_response_length < 100 then feedback @ [detail_nudge] else feedback)
      in feedback @ (case map_of role_specific role of
                       None \<Rightarrow> generic_tips
                     | Some tips \<Rightarrow> tips))"

text \<open>
  To read a feedback list: the tips of the role table together with the generic ones,
  and the items of a feedback list that are such tips, in their order.
\<close>

definition all_role_tips :: "string list" where
  "all_role_tips =
     software_engineer_tips @ data_scientist_tips @ product_manager_tips @ generic_tips"

definition role_tips_of :: "string list \<Rightarrow> string list" where
  "role_tips_of feedback = filter (\<lambda>item. item \<in> set all_role_tips) feedback"

section \<open>Audio mode\<close>

text \<open>
  The practice settings of the setup page (streamlit\_app.py, lines 161-177);
  \<open>checkbox\<close> is the value of the audio check box.
\<close>

definition practice_settings :: "bool \<Rightarrow> session_state \<Rightarrow> session_state" where
  "practice_settings checkbox s =
     (let selected_round = state_get s ''round_radio'' (PStr ''Warm Up'');
          audio_disabled_for_coding = (selected_round = PStr ''Coding'')
      in if audio_disabled_for_coding
         then s(''audio_checkbox'' \<mapsto> PBool False, ''audio_mode_enabled'' \<mapsto> PBool False)
         else s(''audio_checkbox'' \<mapsto> PBool checkbox, ''audio_mode_enabled'' \<mapsto> PBool checkbox))"

text \<open>practice\_app.py, lines 102-111: the round of the query and the default of the check box.\<close>

definition round_type_of :: "string option \<Rightarrow> string" where
  "round_type_of query_round = (case query_round of None \<Rightarrow> ''Coding'' | Some r \<Rightarrow> r)"

definition init_audio_checkbox :: "string \<Rightarrow> session_state \<Rightarrow> session_state" where
  "init_audio_checkbox round_type s =
     (let is_coding_round = (lower round_type = ''coding'')
      in if s ''audio_checkbox'' = None then
           (let default_audio = state_get s ''audio_mode_enabled'' PNone;
                default_audio = (if default_audio = PNone
                                 then (if is_coding_round then PBool False else PBool True)
                                 else default_audio)
            in s(''audio_checkbox'' \<mapsto> PBool (truthy default_audio)))
         else s)"

text \<open>
  practice\_app.py, lines 392-435: the audio flags of the answering state and what is
  rendered; \<open>current_locked\<close> is the lock of the current question.
\<close>

record answer_area =
  audio_mode :: pyval
  audio_enabled :: bool
  audio_only_mode :: bool
  text_area_hidden :: bool
  audio_panel_rendered :: bool
  audio_mode_notice :: bool

definition answering_view :: "string \<Rightarrow> bool \<Rightarrow> session_state \<Rightarrow> answer_area" where
  "answering_view round_type current_locked s =
     (let is_coding_round = (lower round_type = ''coding'');
          audio_mode = state_get s ''audio_mode_enabled'' (state_get s ''audio_checkbox'' (PBool False));
          audio_mode = (if is_coding_round then PBool False else audio_mode);
          audio_enabled =
            (if is_coding_round then False
             else truthy (state_get s ''audio_mode_enabled''
                            (state_get s ''audio_checkbox'' (PBool True))));
          audio_only_mode = (if is_coding_round then False else audio_enabled)
      in \<lparr>audio_mode = audio_mode,
          audio_enabled = audio_enabled,
          audio_only_mode = audio_only_mode,
          text_area_hidden = (truthy audio_mode \<and> \<not> current_locked \<and> \<not> is_coding_round),
          audio_panel_rendered = (\<not> is_coding_round \<and> audio_enabled \<and> \<not> current_locked),
          audio_mode_notice = (\<not> is_coding_round \<and> audio_only_mode \<and> \<not> current_locked)\<rparr>)"

section \<open>Properties\<close>

subsection \<open>Evaluating strip\<close>

lemmas strip_eval = strip_def strip_leading.simps whitespace_def

subsection \<open>The per-question timer\<close>

lemma lower_Coding: "lower ''Coding'' = ''coding''"
  by (simp add: lower_def lower_char_def)




text \<open>
  The step keeps the start of a running timer and stores the clock reading as the start
  of a question seen for the first time; the timers of the other questions stay.
\<close>

lemma timer_step_starts_timer:
  "question_timers (fst (timer_step now1 now2 per_question i st)) =
     (question_timers st)(i \<mapsto> (case question_timers st i of None \<Rightarrow> now1 | Some t \<Rightarrow> t))"
  by (cases "question_timers st i") (auto simp: timer_step_def Let_def)

subsection \<open>The prompt strategies\<close>

lemma contains_here: "contains (x @ r) x"
  by (simp add: contains_def)

lemma contains_skip: "contains r x \<Longrightarrow> contains (a @ r) x"
  unfolding contains_def by (metis sublist_append)

lemma contains_join: "k \<in> set ks \<Longrightarrow> contains (join sep ks) k"
proof (induction sep ks rule: join.induct)
  case (1 sep)
  then show ?case by simp
next
  case (2 sep x)
  then show ?case by (simp add: contains_def)
next
  case (3 sep x y ys)
  show ?case
  proof (cases "k = x")
    case True
    then show ?thesis by (simp add: contains_here)
  next
    case False
    with 3 have "contains (join sep (y # ys)) k" by simp
    then have "contains (sep @ join sep (y # ys)) k" by (rule contains_skip)
    then have "contains (x @ sep @ join sep (y # ys)) k" by (rule contains_skip)
    then show ?thesis by simp
  qed
qed

lemma strategy_keys_eq:
  "strategy_keys =
     [''zero_shot'', ''few_shot'', ''chain_of_thought'', ''role_based'',
      ''structured_output'', ''socratic'']"
  by (simp add: strategy_keys_def PROMPT_STRATEGIES_def)

lemma map_of_strategies_None:
  "map_of PROMPT_STRATEGIES strategy = None \<longleftrightarrow> strategy \<notin> set strategy_keys"
  by (simp add: strategy_keys_def map_of_eq_None_iff)

text \<open>
  Claim C6. For a strategy id that is not one of the six keys of the registry,
  \<open>get_prompt_by_strategy\<close> fails with a \<open>ValueError\<close> whose message starts with
  "Unknown strategy" and contains every valid strategy id; for each of the six
  registered ids it returns a prompt and does not fail.
\<close>

theorem unknown_strategy_error:
  "(strategy \<notin> set strategy_keys \<longrightarrow>
      get_prompt_by_strategy strategy role company round_type difficulty previous_questions
        = Inl (ValueError (unknown_strategy_message strategy)) \<and>
      startswith (unknown_strategy_message strategy) ''Unknown strategy'' \<and>
      (\<forall>k \<in> set strategy_keys. contains (unknown_strategy_message strategy) k)) \<and>
   (strategy \<in> set strategy_keys \<longrightarrow>
      (\<exists>prompt. get_prompt_by_strategy strategy role company round_type difficulty
                  previous_questions = Inr prompt)) \<and>
   strategy_keys =
     [''zero_shot'', ''few_shot'', ''chain_of_thought'', ''role_based'',
      ''structured_output'', ''socratic'']"
proof (intro conjI impI)
  assume u: "strategy \<notin> set strategy_keys"
  then have "map_of PROMPT_STRATEGIES strategy = None"
    by (simp add: map_of_strategies_None)
  then show "get_prompt_by_strategy strategy role company round_type difficulty previous_questions
        = Inl (ValueError (unknown_strategy_message strategy))"
    by (simp add: get_prompt_by_strategy_def)
next
  show "startswith (unknown_strategy_message strategy) ''Unknown strategy''"
    by (simp add: startswith_def unknown_strategy_message_def)
next
  show "\<forall>k \<in> set strategy_keys. contains (unknown_strategy_message strategy) k"
  proof
    fix k assume "k \<in> set strategy_keys"
    then have "contains (join '', '' strategy_keys) k" by (rule contains_join)
    then show "contains (unknown_strategy_message strategy) k"
      unfolding unknown_strategy_message_def by (intro contains_skip)
  qed
next
  assume "strategy \<in> set strategy_keys"
  then have "map_of PROMPT_STRATEGIES strategy \<noteq> None"
    by (simp add: map_of_strategies_None)
  then show "\<exists>prompt. get_prompt_by_strategy strategy role company round_type difficulty
                  previous_questions = Inr prompt"
    by (auto simp: get_prompt_by_strategy_def Let_def)
next
  show "strategy_keys =
     [''zero_shot'', ''few_shot'', ''chain_of_thought'', ''role_based'',
      ''structured_output'', ''socratic'']"
    by (rule strategy_keys_eq)
qed

theorem unknown_strategy_error_witness:
  "''unknown-strategy'' \<notin> set strategy_keys \<and>
   get_prompt_by_strategy ''unknown-strategy'' ''Software Engineer'' ''Acme'' ''Coding''
     ''Professional'' None =
     Inl (ValueError (''Unknown strategy 'unknown-strategy'. Available strategies: '' @
       ''zero_shot, few_shot, chain_of_thought, role_based, structured_output, socratic'')) \<and>
   contains (unknown_strategy_message ''unknown-strategy'') ''socratic'' \<and>
   ''socratic'' \<in> set strategy_keys \<and>
   (\<exists>prompt. get_prompt_by_strategy ''socratic'' ''Software Engineer'' ''Acme'' ''Coding''
      ''Professional'' None = Inr prompt)"
proof -
  note unknown = unknown_strategy_error [where strategy = "''unknown-strategy''"
      and role = "''Software Engineer''" and company = "''Acme''" and round_type = "''Coding''"
      and difficulty = "''Professional''" and previous_questions = None]
  note known = unknown_strategy_error [where strategy = "''socratic''"
      and role = "''Software Engineer''" and company = "''Acme''" and round_type = "''Coding''"
      and difficulty = "''Professional''" and previous_questions = None]
  have nk: "''unknown-strategy'' \<notin> set strategy_keys"
    by (simp add: strategy_keys_eq)
  have k: "''socratic'' \<in> set strategy_keys"
    by (simp add: strategy_keys_eq)
  have msg: "unknown_strategy_message ''unknown-strategy'' =
      ''Unknown strategy 'unknown-strategy'. Available strategies: '' @
       ''zero_shot, few_shot, chain_of_thought, role_based, structured_output, socratic''"
    by (simp add: unknown_strategy_message_def strategy_keys_eq)
  note u = unknown [THEN conjunct1, rule_format, OF nk]
  have a: "get_prompt_by_strategy ''unknown-strategy'' ''Software Engineer'' ''Acme'' ''Coding''
     ''Professional'' None =
     Inl (ValueError (''Unknown strategy 'unknown-strategy'. Available strategies: '' @
       ''zero_shot, few_shot, chain_of_thought, role_based, structured_output, socratic''))"
    using u [THEN conjunct1] by (simp only: msg)
  have b: "contains (unknown_strategy_message ''unknown-strategy'') ''socratic''"
    using u [THEN conjunct2, THEN conjunct2] k by (rule bspec)
  have c: "\<exists>prompt. get_prompt_by_strategy ''socratic'' ''Software Engineer'' ''Acme'' ''Coding''
      ''Professional'' None = Inr prompt"
    using known [THEN conjunct2, THEN conjunct1] k by (rule mp)
  from nk a b k c show ?thesis by (intro conjI)
qed

lemma zero_shot_prompt_contains:
  "contains (zero_shot_prompt role company round_type difficulty pq) role \<and>
   contains (zero_shot_prompt role company round_type difficulty pq) round_type \<and>
   contains (zero_shot_prompt role company round_type difficulty pq) difficulty"
  unfolding zero_shot_prompt_def Let_def
  by (intro conjI; (rule contains_here | rule contains_skip)+)

lemma few_shot_prompt_contains:
  "contains (few_shot_prompt role company round_type difficulty pq) role \<and>
   contains (few_shot_prompt role company round_type difficulty pq) round_type \<and>
   contains (few_shot_prompt role company round_type difficulty pq) difficulty"
  unfolding few_shot_prompt_def Let_def
  by (intro conjI; (rule contains_here | rule contains_skip)+)

lemma chain_of_thought_prompt_contains:
  "contains (chain_of_thought_prompt role company round_type difficulty pq) role \<and>
   contains (chain_of_thought_prompt role company round_type difficulty pq) round_type \<and>
   contains (chain_of_thought_prompt role company round_type difficulty pq) difficulty"
  unfolding chain_of_thought_prompt_def Let_def
  by (intro conjI; (rule contains_here | rule contains_skip)+)

lemma role_based_prompt_contains:
  "contains (role_based_prompt role company round_type difficulty pq) role \<and>
   contains (role_based_prompt role company round_type difficulty pq) round_type \<and>
   contains (role_based_prompt role company round_type difficulty pq) difficulty"
  unfolding role_based_prompt_def Let_def
  by (intro conjI; (rule contains_here | rule contains_skip)+)

lemma structured_output_prompt_contains:
  "contains (structured_output_prompt role company round_type difficulty pq) role \<and>
   contains (structured_output_prompt role company round_type difficulty pq) round_type \<and>
   contains (structured_output_prompt role company round_type difficulty pq) difficulty"
  unfolding structured_output_prompt_def Let_def
  by (intro conjI; (rule contains_here | rule contains_skip)+)

lemma socratic_prompt_contains:
  "contains (socratic_prompt role company round_type difficulty pq) role \<and>
   contains (socratic_prompt role company round_type difficulty pq) round_type \<and>
   contains (socratic_prompt role company round_type difficulty pq) difficulty"
  unfolding socratic_prompt_def Let_def
  by (intro conjI; (rule contains_here | rule contains_skip)+)

lemma map_of_strategies:
  "map_of PROMPT_STRATEGIES ''zero_shot'' = Some (snd (PROMPT_STRATEGIES ! 0))"
  "map_of PROMPT_STRATEGIES ''few_shot'' = Some (snd (PROMPT_STRATEGIES ! 1))"
  "map_of PROMPT_STRATEGIES ''chain_of_thought'' = Some (snd (PROMPT_STRATEGIES ! 2))"
  "map_of PROMPT_STRATEGIES ''role_based'' = Some (snd (PROMPT_STRATEGIES ! 3))"
  "map_of PROMPT_STRATEGIES ''structured_output'' = Some (snd (PROMPT_STRATEGIES ! 4))"
  "map_of PROMPT_STRATEGIES ''socratic'' = Some (snd (PROMPT_STRATEGIES ! 5))"
  unfolding PROMPT_STRATEGIES_def by simp_all

lemma function_of_strategies:
  "strategy_function (snd (PROMPT_STRATEGIES ! 0)) = zero_shot_prompt"
  "strategy_function (snd (PROMPT_STRATEGIES ! 1)) = few_shot_prompt"
  "strategy_function (snd (PROMPT_STRATEGIES ! 2)) = chain_of_thought_prompt"
  "strategy_function (snd (PROMPT_STRATEGIES ! 3)) = role_based_prompt"
  "strategy_function (snd (PROMPT_STRATEGIES ! 4)) = structured_output_prompt"
  "strategy_function (snd (PROMPT_STRATEGIES ! 5)) = socratic_prompt"
  unfolding PROMPT_STRATEGIES_def by simp_all

lemma get_prompt_registered:
  "get_prompt_by_strategy ''zero_shot'' r c rt d pq = Inr (zero_shot_prompt r c rt d pq)"
  "get_prompt_by_strategy ''few_shot'' r c rt d pq = Inr (few_shot_prompt r c rt d pq)"
  "get_prompt_by_strategy ''chain_of_thought'' r c rt d pq = Inr (chain_of_thought_prompt r c rt d pq)"
  "get_prompt_by_strategy ''role_based'' r c rt d pq = Inr (role_based_prompt r c rt d pq)"
  "get_prompt_by_strategy ''structured_output'' r c rt d pq = Inr (structured_output_prompt r c rt d pq)"
  "get_prompt_by_strategy ''socratic'' r c rt d pq = Inr (socratic_prompt r c rt d pq)"
  unfolding get_prompt_by_strategy_def
  by (simp_all only: map_of_strategies function_of_strategies option.case Let_def)

text \<open>
  Claim C7. For each of the six registered strategy ids, any role, company, round
  type and difficulty and any list of prior questions (none, empty or not),
  \<open>get_prompt_by_strategy\<close> returns a prompt that contains the role, the round type
  and the difficulty verbatim; the prompt is the only result for these inputs.
\<close>

theorem prompt_contains_inputs:
  assumes "strategy \<in> set strategy_keys"
  shows "\<exists>!prompt.
           get_prompt_by_strategy strategy role company round_type difficulty previous_questions
             = Inr prompt \<and>
           contains prompt role \<and> contains prompt round_type \<and> contains prompt difficulty"
proof -
  let ?get = "get_prompt_by_strategy strategy role company round_type difficulty previous_questions"
  let ?ok = "\<lambda>prompt. ?get = Inr prompt \<and>
           contains prompt role \<and> contains prompt round_type \<and> contains prompt difficulty"
  from assms have
    "strategy = ''zero_shot'' \<or> strategy = ''few_shot'' \<or> strategy = ''chain_of_thought'' \<or>
     strategy = ''role_based'' \<or> strategy = ''structured_output'' \<or> strategy = ''socratic''"
    unfolding strategy_keys_eq by (simp only: list.set insert_iff empty_iff simp_thms)
  then have "\<exists>prompt. ?ok prompt"
  proof (elim disjE)
    assume s: "strategy = ''zero_shot''"
    show ?thesis
      unfolding s get_prompt_registered
      by (rule exI [of _ "zero_shot_prompt role company round_type difficulty previous_questions"])
        (simp only: zero_shot_prompt_contains simp_thms)
  next
    assume s: "strategy = ''few_shot''"
    show ?thesis
      unfolding s get_prompt_registered
      by (rule exI [of _ "few_shot_prompt role company round_type difficulty previous_questions"])
        (simp only: few_shot_prompt_contains simp_thms)
  next
    assume s: "strategy = ''chain_of_thought''"
    show ?thesis
      unfolding s get_prompt_registered
      by (rule exI [of _
            "chain_of_thought_prompt role company round_type difficulty previous_questions"])
        (simp only: chain_of_thought_prompt_contains simp_thms)
  next
    assume s: "strategy = ''role_based''"
    show ?thesis
      unfolding s get_prompt_registered
      by (rule exI [of _ "role_based_prompt role company round_type difficulty previous_questions"])
        (simp only: role_based_prompt_contains simp_thms)
  next
    assume s: "strategy = ''structured_output''"
    show ?thesis
      unfolding s get_prompt_registered
      by (rule exI [of _
            "structured_output_prompt role company round_type difficulty previous_questions"])
        (simp only: structured_output_prompt_contains simp_thms)
  next
    assume s: "strategy = ''socratic''"
    show ?thesis
      unfolding s get_prompt_registered
      by (rule exI [of _ "socratic_prompt role company round_type difficulty previous_questions"])
        (simp only: socratic_prompt_contains simp_thms)
  qed
  then obtain prompt where p: "?ok prompt" ..
  show ?thesis
  proof (rule ex1I [of _ prompt])
    show "?ok prompt" by (rule p)
  next
    fix other
    assume "?ok other"
    with p have "Inr other = (Inr prompt :: py_error + string)" by simp
    then show "other = prompt" by simp
  qed
qed

theorem prompt_contains_inputs_witness:
  "''zero_shot'' \<in> set strategy_keys \<and>
   (\<exists>!prompt.
      get_prompt_by_strategy ''zero_shot'' ''Data Scientist'' [] ''Warm Up'' ''Beginner''
        (Some [''What is a p-value?'']) = Inr prompt \<and>
      contains prompt ''Data Scientist'' \<and> contains prompt ''Warm Up'' \<and>
      contains prompt ''Beginner'')"
proof -
  have k: "''zero_shot'' \<in> set strategy_keys"
    by (simp add: strategy_keys_eq)
  from k prompt_contains_inputs [OF k] show ?thesis by (rule conjI)
qed

subsection \<open>Question post-processing\<close>

lemma remove_prefix_none:
  "\<forall>p \<in> set ps. \<not> startswith question p \<Longrightarrow> remove_prefix ps question = question"
  by (induction ps) simp_all

lemma remove_prefix_first:
  "i < length ps \<Longrightarrow> startswith question (ps ! i) \<Longrightarrow>
   \<forall>j < i. \<not> startswith question (ps ! j) \<Longrightarrow>
   remove_prefix ps question = strip (drop (length (ps ! i)) question)"
proof (induction ps arbitrary: i)
  case Nil
  then show ?case by simp
next
  case (Cons p ps)
  show ?case
  proof (cases i)
    case 0
    with Cons.prems show ?thesis by simp
  next
    case (Suc k)
    with Cons.prems have "\<not> startswith question p" by auto
    moreover from Suc Cons.prems have
      "remove_prefix ps question = strip (drop (length (ps ! k)) question)"
      by (intro Cons.IH) auto
    ultimately show ?thesis using Suc by simp
  qed
qed

lemma endswith_qmark_append: "endswith (s @ ''?'') ''?''"
  by (simp add: endswith_def suffix_def)

text \<open>
  Claim C5. The clean-up of a generated question strips the text, cuts the first entry
  of the fixed prefix list that the text starts with (only that one, and once; nothing
  when no entry matches), strips again, and appends "?" exactly when the cleaned text
  does not end with "?"; the result always ends with "?". In particular
  "Question: What is X?" becomes "What is X?", "Explain Y" becomes "Explain Y?", and a
  second label after the first one stays. White space is Python's: a no-break space
  (U+00A0) before the label or after it is stripped like a blank.
\<close>

theorem clean_question_spec:
  "((\<forall>p \<in> set prefixes_to_remove. \<not> startswith (strip q) p) \<longrightarrow>
      clean_question q = (if endswith (strip q) ''?'' then strip q else strip q @ ''?'')) \<and>
   (i < length prefixes_to_remove \<and> startswith (strip q) (prefixes_to_remove ! i) \<and>
    (\<forall>j < i. \<not> startswith (strip q) (prefixes_to_remove ! j)) \<longrightarrow>
      (let cleaned = strip (drop (length (prefixes_to_remove ! i)) (strip q))
       in clean_question q = (if endswith cleaned ''?'' then cleaned else cleaned @ ''?''))) \<and>
   endswith (clean_question q) ''?'' \<and>
   clean_question ''Question: What is X?'' = ''What is X?'' \<and>
   clean_question ''Explain Y'' = ''Explain Y?'' \<and>
   clean_question ''Question: Q: What is X'' = ''Q: What is X?'' \<and>
   clean_question ([CHR 0xC2, CHR 0xA0] @ ''Question: What is X?'') = ''What is X?'' \<and>
   clean_question (''Question:'' @ [CHR 0xC2, CHR 0xA0] @ ''What is X?'') = ''What is X?''"
proof (intro conjI impI)
  assume "\<forall>p \<in> set prefixes_to_remove. \<not> startswith (strip q) p"
  then have "remove_prefix prefixes_to_remove (strip q) = strip q"
    by (rule remove_prefix_none)
  then show "clean_question q = (if endswith (strip q) ''?'' then strip q else strip q @ ''?'')"
    by (simp add: clean_question_def)
next
  assume a: "i < length prefixes_to_remove \<and> startswith (strip q) (prefixes_to_remove ! i) \<and>
    (\<forall>j < i. \<not> startswith (strip q) (prefixes_to_remove ! j))"
  then have "remove_prefix prefixes_to_remove (strip q)
      = strip (drop (length (prefixes_to_remove ! i)) (strip q))"
    by (intro remove_prefix_first) simp_all
  then show "let cleaned = strip (drop (length (prefixes_to_remove ! i)) (strip q))
       in clean_question q = (if endswith cleaned ''?'' then cleaned else cleaned @ ''?'')"
    by (simp add: clean_question_def)
next
  show "endswith (clean_question q) ''?''"
    by (simp add: clean_question_def Let_def endswith_qmark_append)
next
  show "clean_question ''Question: What is X?'' = ''What is X?''"
    by (simp add: clean_question_def prefixes_to_remove_def strip_eval
        startswith_def endswith_def suffix_to_prefix)
next
  show "clean_question ''Explain Y'' = ''Explain Y?''"
    by (simp add: clean_question_def prefixes_to_remove_def strip_eval
        startswith_def endswith_def suffix_to_prefix)
next
  show "clean_question ''Question: Q: What is X'' = ''Q: What is X?''"
    by (simp add: clean_question_def prefixes_to_remove_def strip_eval
        startswith_def endswith_def suffix_to_prefix)
next
  show "clean_question ([CHR 0xC2, CHR 0xA0] @ ''Question: What is X?'') = ''What is X?''"
    by (simp add: clean_question_def prefixes_to_remove_def strip_eval
        startswith_def endswith_def suffix_to_prefix)
next
  show "clean_question (''Question:'' @ [CHR 0xC2, CHR 0xA0] @ ''What is X?'') = ''What is X?''"
    by (simp add: clean_question_def prefixes_to_remove_def strip_eval
        startswith_def endswith_def suffix_to_prefix)
qed

theorem clean_question_spec_witness:
  "startswith (strip ''  Question: What is X  '') (prefixes_to_remove ! 2) \<and>
   \<not> startswith (strip ''  Question: What is X  '') (prefixes_to_remove ! 0) \<and>
   \<not> startswith (strip ''  Question: What is X  '') (prefixes_to_remove ! 1) \<and>
   clean_question ''  Question: What is X  '' = ''What is X?'' \<and>
   list_all (\<lambda>p. \<not> startswith (strip ''Why?'') p) prefixes_to_remove \<and>
   clean_question ''Why?'' = ''Why?''"
proof -
  let ?q = "''  Question: What is X  ''"
  note th = clean_question_spec [where q = ?q and i = 2]
  note th' = clean_question_spec [where q = "''Why?''"]
  have s: "strip ?q = ''Question: What is X''"
    by (simp add: strip_eval)
  have p2: "startswith (strip ?q) (prefixes_to_remove ! 2)"
    unfolding s by (simp add: prefixes_to_remove_def startswith_def)
  have p0: "\<not> startswith (strip ?q) (prefixes_to_remove ! 0)"
    unfolding s by (simp add: prefixes_to_remove_def startswith_def)
  have p1: "\<not> startswith (strip ?q) (prefixes_to_remove ! 1)"
    unfolding s by (simp add: prefixes_to_remove_def startswith_def)
  have lt: "\<forall>j < 2. \<not> startswith (strip ?q) (prefixes_to_remove ! j)"
  proof (intro allI impI)
    fix j :: nat
    assume "j < 2"
    then have "j = 0 \<or> j = 1" by arith
    with p0 p1 show "\<not> startswith (strip ?q) (prefixes_to_remove ! j)" by auto
  qed
  have len: "(2::nat) < length prefixes_to_remove"
    by (simp add: prefixes_to_remove_def)
  from len p2 lt have h: "2 < length prefixes_to_remove \<and>
      startswith (strip ?q) (prefixes_to_remove ! 2) \<and>
      (\<forall>j < 2. \<not> startswith (strip ?q) (prefixes_to_remove ! j))"
    by (intro conjI)
  have d: "strip (drop (length (prefixes_to_remove ! 2)) (strip ?q)) = ''What is X''"
    unfolding s by (simp add: prefixes_to_remove_def strip_eval)
  have c: "clean_question ?q = ''What is X?''"
    using th [THEN conjunct2, THEN conjunct1, THEN mp, OF h]
    unfolding Let_def d by (simp add: endswith_def suffix_to_prefix)
  have s': "strip ''Why?'' = ''Why?''"
    by (simp add: strip_eval)
  have n: "list_all (\<lambda>p. \<not> startswith (strip ''Why?'') p) prefixes_to_remove"
    unfolding s' by (simp add: prefixes_to_remove_def startswith_def)
  then have n': "\<forall>p \<in> set prefixes_to_remove. \<not> startswith (strip ''Why?'') p"
    by (simp only: list_all_iff)
  have c': "clean_question ''Why?'' = ''Why?''"
    using th' [THEN conjunct1, THEN mp, OF n']
    unfolding s' by (simp add: endswith_def suffix_to_prefix)
  from p2 p0 p1 c n c' show ?thesis by (intro conjI)
qed

subsection \<open>The API key check\<close>

lemma generation_failed_not_missing: "generation_failed exc \<noteq> missing_key_error"
  by (simp add: generation_failed_def missing_key_error_def)

text \<open>
  Claim C10. \<open>generate_question\<close> raises its missing-key \<open>ValueError\<close> exactly
  when the API key is \<open>None\<close> or the empty string, and then makes no remote call. A
  key of white space only (any of the characters \<open>str.strip\<close> removes) is not empty:
  with a registered strategy the remote call is made with that key and the prompt, and
  the reply of the remote service decides the result, be it the wrapped exception of
  the call, the cleaned question of the response, or the wrapped error of a response
  with no text. \<open>validate_google_api_key\<close> rejects the same key as missing, since it
  strips before it tests.
\<close>

theorem generate_question_key_check:
  "(fst (generate_question generate_content role company round_type difficulty
           previous_questions api_key prompt_strategy) = Inl missing_key_error
      \<longleftrightarrow> api_key = None \<or> api_key = Some '''') \<and>
   (api_key = None \<or> api_key = Some '''' \<longrightarrow>
      snd (generate_question generate_content role company round_type difficulty
             previous_questions api_key prompt_strategy) = []) \<and>
   (key \<noteq> [] \<and> strip key = [] \<and>
    get_prompt_by_strategy prompt_strategy role company round_type difficulty previous_questions
      = Inr prompt \<longrightarrow>
      snd (generate_question generate_content role company round_type difficulty
             previous_questions (Some key) prompt_strategy) = [(key, prompt)] \<and>
      fst (generate_question generate_content role company round_type difficulty
             previous_questions (Some key) prompt_strategy) =
        (case generate_content key prompt of
           Inl exc \<Rightarrow> Inl (generation_failed exc)
         | Inr resp \<Rightarrow>
             if extract_text_from_response (Some resp) \<noteq> []
             then Inr (clean_question (extract_text_from_response (Some resp)))
             else Inl (generation_failed (str_of_error (empty_response_error resp)))) \<and>
      validate_google_api_key count_tokens (Some key) =
        Inl (ValueError
          ''GOOGLE_API_KEY missing. Provide it via .env before generating questions.''))"
proof (intro conjI impI)
  show "fst (generate_question generate_content role company round_type difficulty
           previous_questions api_key prompt_strategy) = Inl missing_key_error
      \<longleftrightarrow> api_key = None \<or> api_key = Some ''''"
    by (auto simp: generate_question_def Let_def generation_failed_not_missing
        split: option.splits sum.splits)
next
  assume "api_key = None \<or> api_key = Some ''''"
  then show "snd (generate_question generate_content role company round_type difficulty
             previous_questions api_key prompt_strategy) = []"
    by (auto simp: generate_question_def)
next
  assume a: "key \<noteq> [] \<and> strip key = [] \<and>
    get_prompt_by_strategy prompt_strategy role company round_type difficulty previous_questions
      = Inr prompt"
  then show "snd (generate_question generate_content role company round_type difficulty
             previous_questions (Some key) prompt_strategy) = [(key, prompt)]"
    by (simp add: generate_question_def Let_def split: sum.splits)
next
  assume a: "key \<noteq> [] \<and> strip key = [] \<and>
    get_prompt_by_strategy prompt_strategy role company round_type difficulty previous_questions
      = Inr prompt"
  then show "fst (generate_question generate_content role company round_type difficulty
             previous_questions (Some key) prompt_strategy) =
        (case generate_content key prompt of
           Inl exc \<Rightarrow> Inl (generation_failed exc)
         | Inr resp \<Rightarrow>
             if extract_text_from_response (Some resp) \<noteq> []
             then Inr (clean_question (extract_text_from_response (Some resp)))
             else Inl (generation_failed (str_of_error (empty_response_error resp))))"
    by (simp add: generate_question_def Let_def split: sum.splits)
next
  assume a: "key \<noteq> [] \<and> strip key = [] \<and>
    get_prompt_by_strategy prompt_strategy role company round_type difficulty previous_questions
      = Inr prompt"
  then show "validate_google_api_key count_tokens (Some key) =
        Inl (ValueError
          ''GOOGLE_API_KEY missing. Provide it via .env before generating questions.'')"
    by (simp add: validate_google_api_key_def)
qed

theorem generate_question_key_check_witness:
  "fst (generate_question (\<lambda>key prompt. Inl ''401 unauthorized'') ''Software Engineer'' ''Acme''
          ''Coding'' ''Professional'' None (Some '''') ''zero_shot'') = Inl missing_key_error \<and>
   snd (generate_question (\<lambda>key prompt. Inl ''401 unauthorized'') ''Software Engineer'' ''Acme''
          ''Coding'' ''Professional'' None (Some '''') ''zero_shot'') = [] \<and>
   '' '' \<noteq> [] \<and> strip '' '' = [] \<and>
   snd (generate_question (\<lambda>key prompt. Inl ''401 unauthorized'') ''Software Engineer'' ''Acme''
          ''Coding'' ''Professional'' None (Some '' '') ''zero_shot'') =
     [('' '', zero_shot_prompt ''Software Engineer'' ''Acme'' ''Coding'' ''Professional'' None)] \<and>
   fst (generate_question (\<lambda>key prompt. Inl ''401 unauthorized'') ''Software Engineer'' ''Acme''
          ''Coding'' ''Professional'' None (Some '' '') ''zero_shot'') =
     Inl (generation_failed ''401 unauthorized'') \<and>
   validate_google_api_key (\<lambda>key. Inr ()) (Some '' '') =
     Inl (ValueError ''GOOGLE_API_KEY missing. Provide it via .env before generating questions.'') \<and>
   [CHR 0xC2, CHR 0xA0] \<noteq> [] \<and> strip [CHR 0xC2, CHR 0xA0] = [] \<and>
   fst (generate_question
          (\<lambda>key prompt. Inr \<lparr>response_text = TextValue (Some ''Question: What is X''),
                               response_candidates = []\<rparr>)
          ''Software Engineer'' ''Acme'' ''Coding'' ''Professional'' None
          (Some [CHR 0xC2, CHR 0xA0]) ''zero_shot'') = Inr ''What is X?'' \<and>
   validate_google_api_key (\<lambda>key. Inr ()) (Some [CHR 0xC2, CHR 0xA0]) =
     Inl (ValueError ''GOOGLE_API_KEY missing. Provide it via .env before generating questions.'')"
proof -
  let ?refuse = "\<lambda>(key :: string) (prompt :: string). (Inl ''401 unauthorized'' :: string + response)"
  let ?resp = "\<lparr>response_text = TextValue (Some ''Question: What is X''),
                response_candidates = []\<rparr>"
  let ?reply = "\<lambda>(key :: string) (prompt :: string). (Inr ?resp :: string + response)"
  let ?prompt = "zero_shot_prompt ''Software Engineer'' ''Acme'' ''Coding'' ''Professional'' None"
  let ?nbsp = "[CHR 0xC2, CHR 0xA0]"
  note empty = generate_question_key_check [where api_key = "Some ''''"
      and generate_content = ?refuse and role = "''Software Engineer''" and company = "''Acme''"
      and round_type = "''Coding''" and difficulty = "''Professional''"
      and previous_questions = None and prompt_strategy = "''zero_shot''"]
  note blank = generate_question_key_check [where key = "'' ''" and prompt = ?prompt
      and generate_content = ?refuse and role = "''Software Engineer''" and company = "''Acme''"
      and round_type = "''Coding''" and difficulty = "''Professional''"
      and previous_questions = None and prompt_strategy = "''zero_shot''"
      and count_tokens = "\<lambda>key. Inr ()"]
  note nbsp = generate_question_key_check [where key = ?nbsp and prompt = ?prompt
      and generate_content = ?reply and role = "''Software Engineer''" and company = "''Acme''"
      and round_type = "''Coding''" and difficulty = "''Professional''"
      and previous_questions = None and prompt_strategy = "''zero_shot''"
      and count_tokens = "\<lambda>key. Inr ()"]
  have e: "Some '''' = None \<or> Some '''' = Some (''''::string)"
    by simp
  have k: "'' '' \<noteq> []"
    by simp
  have w: "strip '' '' = []"
    by (simp add: strip_eval)
  have k': "?nbsp \<noteq> []"
    by simp
  have w': "strip ?nbsp = []"
    by (simp add: strip_eval)
  have g: "get_prompt_by_strategy ''zero_shot'' ''Software Engineer'' ''Acme'' ''Coding''
      ''Professional'' None = Inr ?prompt"
    by (rule get_prompt_registered)
  from k w g have h: "'' '' \<noteq> [] \<and> strip '' '' = [] \<and>
      get_prompt_by_strategy ''zero_shot'' ''Software Engineer'' ''Acme'' ''Coding''
        ''Professional'' None = Inr ?prompt"
    by (intro conjI)
  from k' w' g have h': "?nbsp \<noteq> [] \<and> strip ?nbsp = [] \<and>
      get_prompt_by_strategy ''zero_shot'' ''Software Engineer'' ''Acme'' ''Coding''
        ''Professional'' None = Inr ?prompt"
    by (intro conjI)
  have x: "extract_text_from_response (Some ?resp) = ''Question: What is X''"
    by (simp add: extract_text_from_response_def strip_eval)
  have q: "clean_question ''Question: What is X'' = ''What is X?''"
    by (simp add: clean_question_def prefixes_to_remove_def strip_eval
        startswith_def endswith_def suffix_to_prefix)
  note a = empty [THEN conjunct1, THEN iffD2, OF e]
  note b = empty [THEN conjunct2, THEN conjunct1, THEN mp, OF e]
  note c = blank [THEN conjunct2, THEN conjunct2, THEN mp, OF h]
  note d = nbsp [THEN conjunct2, THEN conjunct2, THEN mp, OF h']
  have c1: "snd (generate_question ?refuse ''Software Engineer'' ''Acme''
          ''Coding'' ''Professional'' None (Some '' '') ''zero_shot'') = [('' '', ?prompt)]"
    by (rule c [THEN conjunct1])
  have c2: "fst (generate_question ?refuse ''Software Engineer'' ''Acme''
          ''Coding'' ''Professional'' None (Some '' '') ''zero_shot'') =
     Inl (generation_failed ''401 unauthorized'')"
    using c [THEN conjunct2, THEN conjunct1] by simp
  note c3 = c [THEN conjunct2, THEN conjunct2]
  have d2: "fst (generate_question ?reply ''Software Engineer'' ''Acme'' ''Coding''
          ''Professional'' None (Some ?nbsp) ''zero_shot'') = Inr ''What is X?''"
    using d [THEN conjunct2, THEN conjunct1] unfolding sum.case x q by simp
  note d3 = d [THEN conjunct2, THEN conjunct2]
  from a b k w c1 c2 c3 k' w' d2 d3 show ?thesis by (intro conjI)
qed

subsection \<open>Audio mode in the Coding round\<close>

text \<open>
  Claim C9. Whenever the round type is Coding (compared in lower case; it is also the
  default of a missing query parameter), the audio mode computed on entry into the
  answering state is false whatever the session store holds, for a locked or an
  unlocked question: audio is neither enabled nor the only mode, the text area is not
  hidden, and the audio capture panel is not rendered. On the setup page a selected
  Coding round stores false in both audio keys.
\<close>

theorem coding_round_forces_audio_off:
  "(lower round_type = ''coding'' \<longrightarrow>
      audio_mode (answering_view round_type current_locked s) = PBool False \<and>
      \<not> audio_enabled (answering_view round_type current_locked s) \<and>
      \<not> audio_only_mode (answering_view round_type current_locked s) \<and>
      \<not> audio_panel_rendered (answering_view round_type current_locked s) \<and>
      \<not> audio_mode_notice (answering_view round_type current_locked s) \<and>
      \<not> text_area_hidden (answering_view round_type current_locked s) \<and>
      \<not> audio_panel_rendered
          (answering_view round_type current_locked (init_audio_checkbox round_type s))) \<and>
   (state_get s ''round_radio'' (PStr ''Warm Up'') = PStr ''Coding'' \<longrightarrow>
      practice_settings checkbox s ''audio_checkbox'' = Some (PBool False) \<and>
      practice_settings checkbox s ''audio_mode_enabled'' = Some (PBool False)) \<and>
   round_type_of None = ''Coding'' \<and> lower ''Coding'' = ''coding''"
  by (simp add: answering_view_def practice_settings_def round_type_of_def lower_Coding Let_def)

theorem coding_round_forces_audio_off_witness:
  "lower ''Coding'' = ''coding'' \<and>
   audio_mode (answering_view ''Coding'' False
     [''audio_mode_enabled'' \<mapsto> PBool True, ''audio_checkbox'' \<mapsto> PBool True]) = PBool False \<and>
   \<not> audio_enabled (answering_view ''Coding'' False
     [''audio_mode_enabled'' \<mapsto> PBool True, ''audio_checkbox'' \<mapsto> PBool True]) \<and>
   \<not> audio_panel_rendered (answering_view ''Coding'' False
     [''audio_mode_enabled'' \<mapsto> PBool True, ''audio_checkbox'' \<mapsto> PBool True]) \<and>
   audio_panel_rendered (answering_view ''Behavioral'' False
     [''audio_mode_enabled'' \<mapsto> PBool True, ''audio_checkbox'' \<mapsto> PBool True]) \<and>
   state_get [''round_radio'' \<mapsto> PStr ''Coding'', ''audio_checkbox'' \<mapsto> PBool True]
     ''round_radio'' (PStr ''Warm Up'') = PStr ''Coding'' \<and>
   practice_settings True [''round_radio'' \<mapsto> PStr ''Coding'', ''audio_checkbox'' \<mapsto> PBool True]
     ''audio_checkbox'' = Some (PBool False)"
proof -
  let ?s = "[''audio_mode_enabled'' \<mapsto> PBool True, ''audio_checkbox'' \<mapsto> PBool True]"
  let ?t = "[''round_radio'' \<mapsto> PStr ''Coding'', ''audio_checkbox'' \<mapsto> PBool True]"
  note th = coding_round_forces_audio_off [where round_type = "''Coding''"
      and current_locked = False and s = ?s]
  note th' = coding_round_forces_audio_off [where s = ?t and checkbox = True]
  have l: "lower ''Coding'' = ''coding''"
    by (simp add: lower_def lower_char_def)
  have r: "state_get ?t ''round_radio'' (PStr ''Warm Up'') = PStr ''Coding''"
    by (simp add: state_get_def)
  have other: "audio_panel_rendered (answering_view ''Behavioral'' False ?s)"
    by (simp add: answering_view_def state_get_def lower_def lower_char_def)
  note a = th [THEN conjunct1, THEN mp, OF l]
  note b = th' [THEN conjunct2, THEN conjunct1, THEN mp, OF r]
  from l a other r b show ?thesis by simp
qed

subsection \<open>The role tips of the overall feedback\<close>

lemma tips_distinct: "distinct (completed_item # detail_nudge # all_role_tips)"
  by (simp add: all_role_tips_def completed_item_def detail_nudge_def software_engineer_tips_def
      data_scientist_tips_def product_manager_tips_def generic_tips_def)

lemma head_items_no_tips:
  "completed_item \<notin> set all_role_tips" "detail_nudge \<notin> set all_role_tips"
  using tips_distinct by simp_all

lemma role_tips_of_tips:
  "set tips \<subseteq> set all_role_tips \<Longrightarrow> role_tips_of tips = tips"
  unfolding role_tips_of_def by (rule filter_True) auto

lemma tips_subsets:
  "set software_engineer_tips \<subseteq> set all_role_tips"
  "set data_scientist_tips \<subseteq> set all_role_tips"
  "set product_manager_tips \<subseteq> set all_role_tips"
  "set generic_tips \<subseteq> set all_role_tips"
  unfolding all_role_tips_def by (simp_all only: set_append) blast+

lemma role_tips_of_head:
  "role_tips_of (completed_item # items) = role_tips_of items"
  "role_tips_of (detail_nudge # items) = role_tips_of items"
  unfolding role_tips_of_def by (simp_all add: head_items_no_tips)

lemma overall_feedback_shape:
  "overall_feedback query_role questions answers =
     [completed_item] @
     (case map_of role_specific
             (lower (case query_role of None \<Rightarrow> ''Software Engineer'' | Some r \<Rightarrow> r)) of
        None \<Rightarrow> generic_tips | Some tips \<Rightarrow> tips) \<or>
   overall_feedback query_role questions answers =
     [completed_item] @ [detail_nudge] @
     (case map_of role_specific
             (lower (case query_role of None \<Rightarrow> ''Software Engineer'' | Some r \<Rightarrow> r)) of
        None \<Rightarrow> generic_tips | Some tips \<Rightarrow> tips)"
  unfolding overall_feedback_def Let_def by (simp only: if_split append.simps append_assoc) simp

lemma role_specific_lookup:
  "(case map_of role_specific role of None \<Rightarrow> generic_tips | Some tips \<Rightarrow> tips) =
     (if role = ''software engineer'' then software_engineer_tips
      else if role = ''data scientist'' then data_scientist_tips
      else if role = ''product manager'' then product_manager_tips
      else generic_tips)"
  unfolding role_specific_def by (simp only: map_of.simps fun_upd_apply fst_conv snd_conv)
    (simp only: option.case if_distrib [of "case_option generic_tips (\<lambda>tips. tips)"] split: if_split)

lemma set_if_subset: "set a \<subseteq> S \<Longrightarrow> set b \<subseteq> S \<Longrightarrow> set (if c then a else b) \<subseteq> S"
  by simp

text \<open>
  Claim C4, as amended. The role tips of the overall feedback are chosen by the whole
  lower-cased role text (the \<open>role\<close> query parameter, "Software Engineer" when it is
  missing): exactly the three software-engineer tips when it equals
  "software engineer", the data-scientist tips when it equals "data scientist", the
  product-manager tips when it equals "product manager", and the two generic tips for
  any other text.
\<close>

theorem role_tips_by_exact_role:
  "role_tips_of (overall_feedback query_role questions answers) =
     (let role = lower (case query_role of None \<Rightarrow> ''Software Engineer'' | Some r \<Rightarrow> r)
      in if role = ''software engineer'' then software_engineer_tips
         else if role = ''data scientist'' then data_scientist_tips
         else if role = ''product manager'' then product_manager_tips
         else generic_tips)"
proof -
  let ?role = "lower (case query_role of None \<Rightarrow> ''Software Engineer'' | Some r \<Rightarrow> r)"
  let ?tips = "case map_of role_specific ?role of None \<Rightarrow> generic_tips | Some tips \<Rightarrow> tips"
  have sub: "set ?tips \<subseteq> set all_role_tips"
    unfolding role_specific_lookup by (intro set_if_subset tips_subsets)
  have "role_tips_of (overall_feedback query_role questions answers) = role_tips_of ?tips"
    using overall_feedback_shape [of query_role questions answers]
    by (elim disjE) (simp_all only: role_tips_of_head append.simps)
  also have "\<dots> = ?tips"
    using sub by (rule role_tips_of_tips)
  finally show ?thesis
    unfolding Let_def role_specific_lookup .
qed

theorem role_tips_by_exact_role_witness:
  "role_tips_of (overall_feedback (Some ''Software Engineer'') [''What is X?''] [0 \<mapsto> ''Y'']) =
     software_engineer_tips \<and>
   role_tips_of (overall_feedback (Some ''Data Scientist'') [''What is X?''] [0 \<mapsto> ''Y'']) =
     data_scientist_tips \<and>
   role_tips_of (overall_feedback (Some ''Nurse'') [''What is X?''] [0 \<mapsto> ''Y'']) =
     generic_tips"
  using role_tips_by_exact_role [of "Some ''Software Engineer''" "[''What is X?'']" "[0 \<mapsto> ''Y'']"]
    role_tips_by_exact_role [of "Some ''Data Scientist''" "[''What is X?'']" "[0 \<mapsto> ''Y'']"]
    role_tips_by_exact_role [of "Some ''Nurse''" "[''What is X?'']" "[0 \<mapsto> ''Y'']"]
  by (simp add: lower_def lower_char_def)

text \<open>
  The claim as stated fails: the role "Senior Software Engineer" contains the word
  "engineer" after lowercasing, and its feedback holds the generic tips, not the
  software-engineer ones.
\<close>

theorem engineer_substring_counterexample:
  "contains (lower ''Senior Software Engineer'') ''engineer'' \<and>
   overall_feedback (Some ''Senior Software Engineer'') [''What is X?''] [0 \<mapsto> ''Y''] =
     [completed_item, detail_nudge] @ generic_tips \<and>
   role_tips_of
     (overall_feedback (Some ''Senior Software Engineer'') [''What is X?''] [0 \<mapsto> ''Y''])
     \<noteq> software_engineer_tips"
proof -
  have l: "lower ''Senior Software Engineer'' = ''senior software engineer''"
    by (simp add: lower_def lower_char_def)
  have c: "contains (lower ''Senior Software Engineer'') ''engineer''"
    unfolding l contains_def by code_simp
  have f: "overall_feedback (Some ''Senior Software Engineer'') [''What is X?''] [0 \<mapsto> ''Y''] =
     [completed_item, detail_nudge] @ generic_tips"
    unfolding overall_feedback_def Let_def option.case l
    by (simp add: role_specific_def py_len_def)
  have g: "role_tips_of ([completed_item, detail_nudge] @ generic_tips) = generic_tips"
    by (simp only: role_tips_of_head append.simps role_tips_of_tips [OF tips_subsets(4)])
  have n: "generic_tips \<noteq> software_engineer_tips"
    by (simp add: generic_tips_def software_engineer_tips_def)
  from c f g n show ?thesis by simp
qed

subsection \<open>The fallback to the candidates\<close>

text \<open>
  Whatever the candidates hold, the scan of lines 59-63 finds no text: a candidate
  with content makes \<open>_extract_text_from_candidate\<close> return \<open>None\<close>, one without
  content the empty string.
\<close>

lemma scan_candidates_empty: "scan_candidates cs = ''''"
  by (induction cs) (simp_all add: extract_text_from_candidate_def split: option.splits)

text \<open>
  Claim C1 fails on the code. For a response whose text accessor raises and whose only
  candidate has the content "What is X?", the extraction returns the empty string, not
  that text: the candidate helper returns \<open>None\<close> for it.
\<close>

theorem candidate_fallback_returns_empty:
  "extract_text_from_response
     (Some \<lparr>response_text = TextRaises,
            response_candidates =
              [\<lparr>candidate_content = Some [''What is X?''],
                candidate_finish_reason = ''STOP'',
                candidate_safety_ratings = []\<rparr>]\<rparr>) = '''' \<and>
   extract_text_from_candidate
     \<lparr>candidate_content = Some [''What is X?''],
      candidate_finish_reason = ''STOP'',
      candidate_safety_ratings = []\<rparr> = None"
  by (simp add: extract_text_from_response_def extract_text_from_candidate_def)

subsection \<open>Safety settings across sessions\<close>

lemma first_session_setup:
  "setup_safety_settings 1 (\<lambda>category_name. Block_Some) module_loaded =
     \<lparr>heap = [DEFAULT_SAFETY_SETTINGS \<mapsto> default_safety_literal],
      next_ref = 1,
      session_safety = [1 \<mapsto> DEFAULT_SAFETY_SETTINGS]\<rparr>"
  by (simp add: setup_safety_settings_def store_threshold_def module_loaded_def
      safety_categories_def deref_def default_safety_literal_def)

lemma second_session_setup:
  "setup_safety_settings 2 (\<lambda>category_name. Block_Some)
     \<lparr>heap = [DEFAULT_SAFETY_SETTINGS \<mapsto> default_safety_literal],
      next_ref = 1,
      session_safety = [1 \<mapsto> DEFAULT_SAFETY_SETTINGS]\<rparr> =
     \<lparr>heap = [DEFAULT_SAFETY_SETTINGS \<mapsto> default_safety_literal],
      next_ref = 1,
      session_safety = [1 \<mapsto> DEFAULT_SAFETY_SETTINGS, 2 \<mapsto> DEFAULT_SAFETY_SETTINGS]\<rparr>"
  by (simp add: setup_safety_settings_def store_threshold_def
      safety_categories_def deref_def default_safety_literal_def)

lemma first_session_picks:
  "setup_safety_settings 1 ((\<lambda>category_name. Block_Some)(''Harassment'' := Block_None))
     \<lparr>heap = [DEFAULT_SAFETY_SETTINGS \<mapsto> default_safety_literal],
      next_ref = 1,
      session_safety = [1 \<mapsto> DEFAULT_SAFETY_SETTINGS, 2 \<mapsto> DEFAULT_SAFETY_SETTINGS]\<rparr> =
     \<lparr>heap = [DEFAULT_SAFETY_SETTINGS \<mapsto>
         [(HARM_CATEGORY_HARASSMENT, BLOCK_NONE),
          (HARM_CATEGORY_HATE_SPEECH, BLOCK_MEDIUM_AND_ABOVE),
          (HARM_CATEGORY_SEXUALLY_EXPLICIT, BLOCK_MEDIUM_AND_ABOVE),
          (HARM_CATEGORY_DANGEROUS_CONTENT, BLOCK_MEDIUM_AND_ABOVE)]],
      next_ref = 1,
      session_safety = [1 \<mapsto> DEFAULT_SAFETY_SETTINGS, 2 \<mapsto> DEFAULT_SAFETY_SETTINGS]\<rparr>"
  by (simp add: setup_safety_settings_def store_threshold_def
      safety_categories_def deref_def default_safety_literal_def)

text \<open>
  Claim C2 fails on the code. Sessions 1 and 2 open the setup page with every select
  box at "Block Some"; both sessions' \<open>safety_settings\<close> keys then hold the module's
  own dictionary. When session 1 picks "Block None" for harassment, the effective
  safety configuration of session 2 and the module default lose the harassment
  threshold as well, and a later session 3 that starts on the practice page copies
  the changed default.
\<close>

theorem safety_settings_shared_across_sessions:
  "(let everyone = (\<lambda>category_name. Block_Some);
        p1 = setup_safety_settings 1 everyone module_loaded;
        p2 = setup_safety_settings 2 everyone p1;
        p3 = setup_safety_settings 1 (everyone(''Harassment'' := Block_None)) p2
    in effective_safety 2 p2 = default_safety_literal \<and>
       effective_safety 2 p3 =
         [(HARM_CATEGORY_HARASSMENT, BLOCK_NONE),
          (HARM_CATEGORY_HATE_SPEECH, BLOCK_MEDIUM_AND_ABOVE),
          (HARM_CATEGORY_SEXUALLY_EXPLICIT, BLOCK_MEDIUM_AND_ABOVE),
          (HARM_CATEGORY_DANGEROUS_CONTENT, BLOCK_MEDIUM_AND_ABOVE)] \<and>
       deref p3 DEFAULT_SAFETY_SETTINGS = effective_safety 2 p3 \<and>
       session_safety p3 1 = Some DEFAULT_SAFETY_SETTINGS \<and>
       session_safety p3 2 = Some DEFAULT_SAFETY_SETTINGS \<and>
       effective_safety 3 (practice_safety_settings 3 p3) = effective_safety 2 p3)"
  unfolding Let_def first_session_setup second_session_setup first_session_picks
  by (simp add: effective_safety_def deref_def practice_safety_settings_def
      default_safety_literal_def DEFAULT_SAFETY_SETTINGS_def)

subsection \<open>Start New Interview\<close>

lemma all_keys_eq:
  "all_keys =
     [''paused'', ''finished'', ''questions'', ''current_question_index'', ''question_timers'',
      ''question_locked'', ''audio_mode_enabled'', ''audio_checkbox'',
      ''answer_0'', ''answer_1'', ''answer_2'', ''answer_3'', ''answer_4'',
      ''answer_5'', ''answer_6'', ''answer_7'', ''answer_8'', ''answer_9'']"
  unfolding all_keys_def by (simp add: upt_rec [of _ "numeral n" for n] upt_rec [of 0] str_nat.simps digit_char_def)

lemma fold_pop:
  "fold (\<lambda>key st. st(key := None)) ks s k = (if k \<in> set ks then None else s k)"
  by (induction ks arbitrary: s) simp_all

lemma start_new_interview_apply:
  "start_new_interview s k = (if k \<in> set all_keys then None else s k)"
  unfolding start_new_interview_def by (rule fold_pop)

lemma widget_key_not_popped: "widget_key idx \<notin> set all_keys"
  unfolding all_keys_eq widget_key_def by simp

lemma answers_not_popped: "''answers'' \<notin> set all_keys"
  unfolding all_keys_eq by simp

text \<open>
  The keys popped are \<open>answer_0\<close> .. \<open>answer_9\<close>; the text areas are bound to
  \<open>answer_input_0\<close>, \<open>answer_input_1\<close>, ..., so no widget binding and not the answer
  map is touched, in any session store.
\<close>

lemma start_new_interview_keeps_widget:
  "start_new_interview s (widget_key idx) = s (widget_key idx) \<and>
   start_new_interview s ''answers'' = s ''answers''"
  by (simp add: start_new_interview_apply widget_key_not_popped answers_not_popped)

text \<open>
  Claim C3 fails on the code. In a finished session with one question answered,
  "Start New Interview" removes the questions, and leaves the binding of the answer
  text area of question 0 and the answer map as they were.
\<close>

theorem start_new_interview_keeps_answers:
  "widget_key 0 = ''answer_input_0'' \<and>
   start_new_interview
     [''finished'' \<mapsto> PBool True,
      ''questions'' \<mapsto> PStrList [''What is X?''],
      ''current_question_index'' \<mapsto> PInt 0,
      ''answers'' \<mapsto> PAnswers [(0, ''my old answer'')],
      ''answer_input_0'' \<mapsto> PStr ''my old answer''] (widget_key 0)
     = Some (PStr ''my old answer'') \<and>
   start_new_interview
     [''finished'' \<mapsto> PBool True,
      ''questions'' \<mapsto> PStrList [''What is X?''],
      ''current_question_index'' \<mapsto> PInt 0,
      ''answers'' \<mapsto> PAnswers [(0, ''my old answer'')],
      ''answer_input_0'' \<mapsto> PStr ''my old answer''] ''answers''
     = Some (PAnswers [(0, ''my old answer'')]) \<and>
   start_new_interview
     [''finished'' \<mapsto> PBool True,
      ''questions'' \<mapsto> PStrList [''What is X?''],
      ''current_question_index'' \<mapsto> PInt 0,
      ''answers'' \<mapsto> PAnswers [(0, ''my old answer'')],
      ''answer_input_0'' \<mapsto> PStr ''my old answer''] ''questions''
     = None"
proof -
  have w: "widget_key 0 = ''answer_input_0''"
    by (simp add: widget_key_def str_nat.simps digit_char_def)
  have q: "''questions'' \<in> set all_keys"
    unfolding all_keys_eq by simp
  have nw: "''answer_input_0'' \<notin> set all_keys"
    using widget_key_not_popped [of 0] unfolding w .
  show ?thesis
    unfolding start_new_interview_apply w
    by (simp only: q nw answers_not_popped if_True if_False simp_thms) simp
qed

end
